theory Spec2Isabelle
  imports Main "HOL-Library.Sublist"
begin

section \<open>Go string and path primitives used by mkcd (Unix)\<close>

text \<open>
  Go strings are byte sequences; they are modelled as \<^typ>\<open>string\<close>.
  \<^verbatim>\<open>filepath.Separator\<close> is the slash on the Unix targets of the tool.
\<close>

definition Separator :: char where
  "Separator = CHR ''/''"

text \<open>\<^verbatim>\<open>strings.HasPrefix(s, p)\<close>.\<close>

definition HasPrefix :: "string \<Rightarrow> string \<Rightarrow> bool" where
  "HasPrefix s p = prefix p s"

text \<open>\<^verbatim>\<open>strings.Contains(s, substr)\<close>: some suffix of \<open>s\<close> starts with \<open>substr\<close>.\<close>

fun Contains :: "string \<Rightarrow> string \<Rightarrow> bool" where
  "Contains [] sub = (sub = [])"
| "Contains (c # cs) sub = (prefix sub (c # cs) \<or> Contains cs sub)"

text \<open>\<^verbatim>\<open>strings.Count(s, string(c))\<close> for a one-byte pattern, as a Go \<^verbatim>\<open>int\<close>.\<close>

definition Count :: "string \<Rightarrow> char \<Rightarrow> int" where
  "Count s c = int (count_list s c)"

text \<open>\<^verbatim>\<open>filepath.IsAbs\<close> on Unix: the path starts with a slash.\<close>

definition IsAbs :: "string \<Rightarrow> bool" where
  "IsAbs path = HasPrefix path [Separator]"

text \<open>\<^verbatim>\<open>strings.Join(elems, "/")\<close>.\<close>

fun JoinSep :: "string list \<Rightarrow> string" where
  "JoinSep [] = []"
| "JoinSep [s] = s"
| "JoinSep (s # t # ss) = s @ Separator # JoinSep (t # ss)"

text \<open>The elements of a path between its separators (\<^verbatim>\<open>strings.Split(path, "/")\<close>).\<close>

fun splitSep :: "string \<Rightarrow> string list" where
  "splitSep [] = [[]]"
| "splitSep (c # cs) =
     (if c = Separator then [] # splitSep cs
      else (case splitSep cs of [] \<Rightarrow> [[c]] | x # xs \<Rightarrow> (c # x) # xs))"

text \<open>
  \<^verbatim>\<open>filepath.Clean\<close> of the Go standard library (not part of the repository), after
  its documented rules: an empty path is \<open>.\<close>; empty elements (multiple separators)
  and \<open>.\<close> elements are dropped; a \<open>..\<close> element removes the element before it
  when that is not itself \<open>..\<close>; \<open>..\<close> elements at the start of a rooted path are
  dropped and those at the start of a relative path are kept; no trailing separator
  but for the root. \<open>out\<close> is the stack of elements written so far, last one first.
\<close>

definition cleanStep :: "bool \<Rightarrow> string list \<Rightarrow> string \<Rightarrow> string list" where
  "cleanStep rooted out elem =
     (if elem = [] \<or> elem = ''.'' then out
      else if elem = ''..'' then
        (case out of
           [] \<Rightarrow> if rooted then [] else [''..'']
         | lastElem # below \<Rightarrow>
             if lastElem \<noteq> ''..'' then below
             else if rooted then out else ''..'' # out)
      else elem # out)"

definition Clean :: "string \<Rightarrow> string" where
  "Clean path =
     (if path = [] then ''.''
      else
        let rooted = IsAbs path;
            out = rev (foldl (cleanStep rooted) [] (splitSep path))
        in if rooted then Separator # JoinSep out
           else if out = [] then ''.'' else JoinSep out)"

text \<open>
  \<^verbatim>\<open>filepath.Join\<close>: the elements from the first non-empty one on are joined by the
  separator and cleaned; the empty string when all are empty.
\<close>

fun Join :: "string list \<Rightarrow> string" where
  "Join [] = []"
| "Join (e # es) = (if e \<noteq> [] then Clean (JoinSep (e # es)) else Join es)"

text \<open>
  \<^verbatim>\<open>filepath.Dir\<close>: the path up to and including its last separator, cleaned.
\<close>

definition Dir :: "string \<Rightarrow> string" where
  "Dir path = Clean (rev (dropWhile (\<lambda>c. c \<noteq> Separator) (rev path)))"

section \<open>The environment of one invocation\<close>

text \<open>
  What the process reads from its surroundings: the home directory as
  \<^verbatim>\<open>os.UserHomeDir\<close> and as \<^verbatim>\<open>homedir.Dir\<close> report it (\<open>None\<close> is their error), the
  working directory (\<^verbatim>\<open>os.Getwd\<close>), \<^verbatim>\<open>os.TempDir\<close>, the formatted time stamp of
  \<^verbatim>\<open>time.Now\<close>, and the answer of the interactive confirmation prompt.
\<close>

record env =
  UserHomeDir :: "string option"
  HomedirDir :: "string option"
  Getwd :: "string option"
  TempDir :: string
  Now :: string
  ConfirmShow :: "string + bool"

section \<open>Path sanitising and validation (internal/utils)\<close>

record PathValidator =
  ForbiddenPaths :: "string list"
  MaxDepth :: int

definition NewPathValidator :: "string list \<Rightarrow> int \<Rightarrow> PathValidator" where
  "NewPathValidator forbiddenPaths maxDepth =
     \<lparr>ForbiddenPaths = forbiddenPaths, MaxDepth = maxDepth\<rparr>"

text \<open>
  The errors of the path functions, one constructor per \<^verbatim>\<open>fmt.Errorf\<close> of the source,
  carrying the values the message formats; the two wrappers are the \<^verbatim>\<open>%w\<close> wraps
  of \<^verbatim>\<open>ValidatePath\<close>.
\<close>

datatype path_error =
    DangerousDotDot string
  | InvalidEmptyPath
  | FailedHomeDirectory
  | FailedAbsolutePath string
  | PathForbidden string
  | UnderForbidden string string
  | DepthExceeded int int string
  | DangerousCharacters string string
  | SanitizationFailed path_error
  | FailedResolveAbsolute path_error

text \<open>\<^verbatim>\<open>SanitizePath\<close>: clean first, then look for two dots in the cleaned path.\<close>

definition SanitizePath :: "string \<Rightarrow> path_error + string" where
  "SanitizePath path =
     (let cleaned = Clean path
      in if Contains cleaned ''..'' then Inl (DangerousDotDot path)
         else if cleaned = [] \<or> cleaned = ''.'' then Inl InvalidEmptyPath
         else Inr cleaned)"

text \<open>\<^verbatim>\<open>filepath.Abs\<close> on Unix.\<close>

definition Abs :: "env \<Rightarrow> string \<Rightarrow> string option" where
  "Abs e path =
     (if IsAbs path then Some (Clean path)
      else (case Getwd e of None \<Rightarrow> None | Some wd \<Rightarrow> Some (Join [wd, path])))"

definition GetAbsolutePath :: "env \<Rightarrow> string \<Rightarrow> path_error + string" where
  "GetAbsolutePath e path =
     (case (if HasPrefix path ''~/''
            then (case UserHomeDir e of
                    None \<Rightarrow> Inl FailedHomeDirectory
                  | Some homeDir \<Rightarrow> Inr (Join [homeDir, drop 2 path]))
            else Inr path) of
        Inl err \<Rightarrow> Inl err
      | Inr path' \<Rightarrow>
          (case Abs e path' of
             None \<Rightarrow> Inl (FailedAbsolutePath path')
           | Some absPath \<Rightarrow> Inr absPath))"

text \<open>
  \<^verbatim>\<open>checkForbiddenPaths\<close>: the loop over the forbidden list returns at the first entry
  that the path equals, or that followed by a separator is a prefix of the path.
\<close>

fun forbiddenLoop :: "string list \<Rightarrow> string \<Rightarrow> path_error + unit" where
  "forbiddenLoop [] absPath = Inr ()"
| "forbiddenLoop (forbidden # rest) absPath =
     (if absPath = forbidden then Inl (PathForbidden absPath)
      else if HasPrefix absPath (forbidden @ [Separator])
        then Inl (UnderForbidden forbidden absPath)
      else forbiddenLoop rest absPath)"

definition checkForbiddenPaths :: "PathValidator \<Rightarrow> string \<Rightarrow> path_error + unit" where
  "checkForbiddenPaths pv absPath = forbiddenLoop (ForbiddenPaths pv) absPath"

text \<open>
  \<^verbatim>\<open>checkPathDepth\<close>: the depth is the number of separators, less one for an
  absolute path; an error when it is greater than the limit.
\<close>

definition pathDepth :: "string \<Rightarrow> int" where
  "pathDepth path =
     (let depth = Count path Separator
      in if IsAbs path then depth - 1 else depth)"

definition checkPathDepth :: "PathValidator \<Rightarrow> string \<Rightarrow> path_error + unit" where
  "checkPathDepth pv path =
     (let depth = pathDepth path
      in if depth > MaxDepth pv then Inl (DepthExceeded depth (MaxDepth pv) path)
         else Inr ())"

text \<open>
  \<^verbatim>\<open>checkDangerousCharacters\<close>: the four regular expressions of the source, in their
  order, each as the predicate it decides: a null byte; one of the characters
  \<^verbatim>\<open><>:"|?*\<close>; white space (\<^verbatim>\<open>\s\<close>: tab, line feed, form feed, carriage return, space)
  at the start or at the end; three dots in a row.
\<close>

definition isSpace :: "char \<Rightarrow> bool" where
  "isSpace c = (c \<in> set [CHR 0x09, CHR 0x0A, CHR 0x0C, CHR 0x0D, CHR 0x20])"

definition dangerousPatterns :: "((string \<Rightarrow> bool) \<times> string) list" where
  "dangerousPatterns =
     [(\<lambda>path. CHR 0x00 \<in> set path, ''null byte''),
      (\<lambda>path. \<exists>c \<in> set path. c \<in> set (CHR 0x22 # ''<>:|?*''), ''invalid filename characters''),
      (\<lambda>path. path \<noteq> [] \<and> (isSpace (hd path) \<or> isSpace (last path)),
         ''leading or trailing whitespace''),
      (\<lambda>path. Contains path ''...'', ''excessive dots'')]"

fun dangerousLoop :: "((string \<Rightarrow> bool) \<times> string) list \<Rightarrow> string \<Rightarrow> path_error + unit" where
  "dangerousLoop [] path = Inr ()"
| "dangerousLoop ((matches, message) # rest) path =
     (if matches path then Inl (DangerousCharacters message path)
      else dangerousLoop rest path)"

definition checkDangerousCharacters :: "PathValidator \<Rightarrow> string \<Rightarrow> path_error + unit" where
  "checkDangerousCharacters pv path = dangerousLoop dangerousPatterns path"

definition ValidatePath :: "env \<Rightarrow> PathValidator \<Rightarrow> string \<Rightarrow> path_error + unit" where
  "ValidatePath e pv path =
     (case SanitizePath path of
        Inl err \<Rightarrow> Inl (SanitizationFailed err)
      | Inr cleanPath \<Rightarrow>
          (case GetAbsolutePath e cleanPath of
             Inl err \<Rightarrow> Inl (FailedResolveAbsolute err)
           | Inr absPath \<Rightarrow>
               (case checkForbiddenPaths pv absPath of
                  Inl err \<Rightarrow> Inl err
                | Inr _ \<Rightarrow>
                    (case checkPathDepth pv cleanPath of
                       Inl err \<Rightarrow> Inl err
                     | Inr _ \<Rightarrow>
                         (case checkDangerousCharacters pv cleanPath of
                            Inl err \<Rightarrow> Inl err
                          | Inr _ \<Rightarrow> Inr ())))))"

text \<open>
  To state the depth boundary in segments: a path of the given segments, relative
  (the segments joined by the separator) or absolute (a leading separator before
  them). A segment is a non-empty name without a separator.
\<close>

definition relPath :: "string list \<Rightarrow> string" where
  "relPath segs = JoinSep segs"

definition absPathOf :: "string list \<Rightarrow> string" where
  "absPathOf segs = Separator # JoinSep segs"

definition segment :: "string \<Rightarrow> bool" where
  "segment s = (s \<noteq> [] \<and> Separator \<notin> set s)"

definition isOk :: "'e + 'a \<Rightarrow> bool" where
  "isOk r = (case r of Inl _ \<Rightarrow> False | Inr _ \<Rightarrow> True)"

section \<open>The configuration store (internal/config)\<close>

text \<open>
  The structs of the package as records. A field is named after its struct where two
  structs share a field name. Go's \<^verbatim>\<open>int\<close> is wide enough for every number here and
  is modelled as \<^typ>\<open>int\<close>; the profile registry, a Go map, is a partial function.
\<close>

record CoreConfig =
  Core_DefaultProfile :: string
  Core_Editor :: string
  Core_ShellIntegration :: bool
  Core_HistoryLimit :: int
  Core_BackupEnabled :: bool
  Core_TempDir :: string

record GitConfig =
  Git_AutoInit :: bool
  Git_DefaultBranch :: string
  Git_UserName :: string
  Git_UserEmail :: string
  Git_DefaultRemoteName :: string

record TemplatesConfig =
  Templates_Directory :: string
  Templates_AutoUpdate :: bool

record SafetyConfig =
  Safety_ConfirmOverwrites :: bool
  Safety_ConfirmDeletes :: bool
  Safety_MaxDepth :: int
  Safety_ForbiddenPaths :: "string list"

record OutputConfig =
  Output_Colors :: bool
  Output_Icons :: bool
  Output_ProgressBars :: bool

record ProfileConfig =
  Profile_Git :: bool
  Profile_Editor :: bool
  Profile_Readme :: bool
  Profile_Gitignore :: string
  Profile_Template :: string
  Profile_Touch :: "string list"
  Profile_License :: string

record Config =
  Core :: CoreConfig
  Git :: GitConfig
  Templates :: TemplatesConfig
  Safety :: SafetyConfig
  Output :: OutputConfig
  Profiles :: "string \<rightharpoonup> ProfileConfig"

text \<open>The zero value \<^verbatim>\<open>ProfileConfig{}\<close>.\<close>

definition emptyProfile :: ProfileConfig where
  "emptyProfile =
     \<lparr>Profile_Git = False, Profile_Editor = False, Profile_Readme = False,
      Profile_Gitignore = [], Profile_Template = [], Profile_Touch = [],
      Profile_License = []\<rparr>"

text \<open>
  \<^verbatim>\<open>DefaultConfig\<close>. The error of \<^verbatim>\<open>homedir.Dir\<close> is dropped by the source, which
  then joins the template directory onto the empty string.
\<close>

definition DefaultConfig :: "env \<Rightarrow> Config" where
  "DefaultConfig e =
     (let homeDir = (case HomedirDir e of None \<Rightarrow> [] | Some d \<Rightarrow> d)
      in \<lparr>Core = \<lparr>Core_DefaultProfile = ''default'', Core_Editor = [],
                  Core_ShellIntegration = True, Core_HistoryLimit = 100,
                  Core_BackupEnabled = False, Core_TempDir = ''/tmp/mkcd''\<rparr>,
          Git = \<lparr>Git_AutoInit = False, Git_DefaultBranch = ''main'', Git_UserName = [],
                 Git_UserEmail = [], Git_DefaultRemoteName = ''origin''\<rparr>,
          Templates = \<lparr>Templates_Directory = Join [homeDir, ''.config'', ''mkcd'', ''templates''],
                       Templates_AutoUpdate = False\<rparr>,
          Safety = \<lparr>Safety_ConfirmOverwrites = True, Safety_ConfirmDeletes = True,
                    Safety_MaxDepth = 10,
                    Safety_ForbiddenPaths = [''/'', ''/usr'', ''/etc'', ''/var'', ''/bin'', ''/sbin'']\<rparr>,
          Output = \<lparr>Output_Colors = True, Output_Icons = True, Output_ProgressBars = True\<rparr>,
          Profiles =
            [''default'' \<mapsto> emptyProfile,
             ''dev'' \<mapsto> emptyProfile\<lparr>Profile_Git := True, Profile_Editor := True,
                 Profile_Readme := True, Profile_Gitignore := ''general'',
                 Profile_Template := ''basic-dev''\<rparr>,
             ''nodejs'' \<mapsto> emptyProfile\<lparr>Profile_Git := True, Profile_Editor := True,
                 Profile_Template := ''nodejs'', Profile_Gitignore := ''node'',
                 Profile_Touch := [''package.json'', ''index.js'']\<rparr>,
             ''python'' \<mapsto> emptyProfile\<lparr>Profile_Git := True, Profile_Editor := True,
                 Profile_Template := ''python'', Profile_Gitignore := ''python'',
                 Profile_Touch := [''main.py'', ''requirements.txt'']\<rparr>]\<rparr>)"

text \<open>The errors of the package, one constructor per \<^verbatim>\<open>fmt.Errorf\<close>.\<close>

datatype config_error =
    FailedHomeDir
  | FailedDetermineConfigPath config_error
  | FailedParseConfigFile string string
  | InvalidConfiguration config_error
  | HistoryLimitNegative
  | MaxDepthTooSmall
  | DefaultProfileMissing string
  | ForbiddenPathNotAbsolute string
  | ProfileNotFound string
  | CannotDeleteDefaultProfile string
  | ProfileDoesNotExist string

definition GetConfigPath :: "env \<Rightarrow> config_error + string" where
  "GetConfigPath e =
     (case HomedirDir e of
        None \<Rightarrow> Inl FailedHomeDir
      | Some homeDir \<Rightarrow>
          (let configDir = Join [homeDir, ''.config'', ''mkcd'']
           in Inr (Join [configDir, ''mkcd.conf''])))"

text \<open>\<^verbatim>\<open>Validate\<close>: four checks in order, returning at the first that fails.\<close>

fun forbiddenAbsLoop :: "string list \<Rightarrow> config_error + unit" where
  "forbiddenAbsLoop [] = Inr ()"
| "forbiddenAbsLoop (path # rest) =
     (if \<not> IsAbs path then Inl (ForbiddenPathNotAbsolute path) else forbiddenAbsLoop rest)"

definition Validate :: "Config \<Rightarrow> config_error + unit" where
  "Validate c =
     (if Core_HistoryLimit (Core c) < 0 then Inl HistoryLimitNegative
      else if Safety_MaxDepth (Safety c) < 1 then Inl MaxDepthTooSmall
      else if Core_DefaultProfile (Core c) \<noteq> [] \<and>
              Profiles c (Core_DefaultProfile (Core c)) = None
        then Inl (DefaultProfileMissing (Core_DefaultProfile (Core c)))
      else forbiddenAbsLoop (Safety_ForbiddenPaths (Safety c)))"

text \<open>
  The violations of a configuration as the specification lists them: every rule
  that does not hold, (a) to (d), one entry per forbidden path that is not absolute.
\<close>

definition violations :: "Config \<Rightarrow> config_error list" where
  "violations c =
     (if Core_HistoryLimit (Core c) < 0 then [HistoryLimitNegative] else []) @
     (if Safety_MaxDepth (Safety c) < 1 then [MaxDepthTooSmall] else []) @
     (if Core_DefaultProfile (Core c) \<noteq> [] \<and>
         Profiles c (Core_DefaultProfile (Core c)) = None
      then [DefaultProfileMissing (Core_DefaultProfile (Core c))] else []) @
     map ForbiddenPathNotAbsolute
       (filter (\<lambda>path. \<not> IsAbs path) (Safety_ForbiddenPaths (Safety c)))"

text \<open>\<^verbatim>\<open>GetProfile\<close>, \<^verbatim>\<open>SetProfile\<close> and \<^verbatim>\<open>DeleteProfile\<close>. The last two mutate the
  receiver; they return the configuration after the call, and \<^verbatim>\<open>DeleteProfile\<close>
  its error next to it.\<close>

definition GetProfile :: "Config \<Rightarrow> string \<Rightarrow> config_error + ProfileConfig" where
  "GetProfile c name =
     (let name = (if name = [] then Core_DefaultProfile (Core c) else name)
      in case Profiles c name of
           None \<Rightarrow> Inl (ProfileNotFound name)
         | Some profile \<Rightarrow> Inr profile)"

definition SetProfile :: "Config \<Rightarrow> string \<Rightarrow> ProfileConfig \<Rightarrow> Config" where
  "SetProfile c name profile = c\<lparr>Profiles := (Profiles c)(name \<mapsto> profile)\<rparr>"

definition DeleteProfile :: "Config \<Rightarrow> string \<Rightarrow> (config_error + unit) \<times> Config" where
  "DeleteProfile c name =
     (if name = Core_DefaultProfile (Core c) then (Inl (CannotDeleteDefaultProfile name), c)
      else if Profiles c name = None then (Inl (ProfileDoesNotExist name), c)
      else (Inr (), c\<lparr>Profiles := (Profiles c)(name := None)\<rparr>))"

section \<open>The operating system, the reporter and the world they act on\<close>

text \<open>
  \<^verbatim>\<open>os.Stat\<close> as the source uses it: success with \<^verbatim>\<open>info.IsDir()\<close>, the error that
  \<^verbatim>\<open>os.IsNotExist\<close> recognises, or another error.
\<close>

datatype stat_result = StatOk bool | StatNotExist | StatError

text \<open>
  The system calls and library calls that act on the file system, over any type
  \<open>'fs\<close> of file-system states. A mutating call returns its error text or success
  together with the state it leaves behind (a failed call may have changed it).
  \<^verbatim>\<open>utils.CopyFile\<close>, a read and write loop over two file handles, is taken as one
  such call, and so is \<^verbatim>\<open>toml.DecodeFile\<close>, which decodes a file onto the
  configuration it is handed.
\<close>

record 'fs os_prims =
  os_Stat :: "'fs \<Rightarrow> string \<Rightarrow> stat_result"
  os_MkdirAll :: "'fs \<Rightarrow> string \<Rightarrow> nat \<Rightarrow> (string + unit) \<times> 'fs"
  os_OpenFile :: "'fs \<Rightarrow> string \<Rightarrow> nat \<Rightarrow> (string + unit) \<times> 'fs"
  os_WriteString :: "'fs \<Rightarrow> string \<Rightarrow> string \<Rightarrow> (string + unit) \<times> 'fs"
  os_Remove :: "'fs \<Rightarrow> string \<Rightarrow> (string + unit) \<times> 'fs"
  os_Symlink :: "'fs \<Rightarrow> string \<Rightarrow> string \<Rightarrow> (string + unit) \<times> 'fs"
  os_CopyFile :: "'fs \<Rightarrow> string \<Rightarrow> string \<Rightarrow> (string + unit) \<times> 'fs"
  os_DecodeFile :: "'fs \<Rightarrow> string \<Rightarrow> Config \<Rightarrow> string + Config"

text \<open>The errors of \<^verbatim>\<open>FileSystemOperations\<close>, one constructor per \<^verbatim>\<open>fmt.Errorf\<close>.\<close>

datatype fs_error =
    PathExistsNotDirectory string
  | FailedCreateDirectory string string
  | FailedBackupExisting fs_error
  | FailedCreateParentDirectory string string
  | FailedCreateFile string string
  | FailedWriteContent string string
  | FailedCreateBackup string string
  | SymlinkTargetMissing string
  | FailedRemoveExistingSymlink string string
  | FailedCreateSymlink string string string

text \<open>
  What the program reports. Each message of the source is a constructor carrying the
  values its format string prints; the level is the printer it is handed to
  (\<open>LList\<close> is the output manager's \<^verbatim>\<open>List\<close>, \<open>LStdout\<close> is \<^verbatim>\<open>fmt.Printf\<close>).
\<close>

datatype level = LSuccess | LError | LWarning | LInfo | LDebug | LList | LStdout

datatype validation_warning =
    DefaultProfileDoesNotExist string
  | TemplateDirectoryMissing string
  | TempDirectoryMissing string

datatype message =
    WouldCreateDirectory string nat
  | DirectoryAlreadyExists string
  | CreatedDirectory string
  | WouldCreateFile string nat
  | CreatedFile string
  | WouldBackupFile string
  | CreatedBackup string
  | WouldCreateSymlink string string
  | CreatedSymlink string string
  | ConfigNotFoundUsingDefaults string
  | LoadedConfiguration string
  | ValidatingConfiguration string
  | ConfigurationValidationFailed config_error
  | ConfigurationHasWarnings
  | WarningList "validation_warning list"
  | ConfigurationIsValid
  | NoDefaultProfileFound
  | ValidationFailedButForced path_error
  | OperationCancelled
  | CustomModeSpecified string
  | FailedToCreateFile string fs_error
  | FailedInitialCommit string
  | FailedOpenEditor string
  | DirectoryCreated string
  | ToChangeDirectoryRun string
  | CdCommand string

type_synonym event = "level \<times> message"

text \<open>
  The world a command runs in: the file system and the trace of the reports made so
  far, in order. The trace records every call of a printer or of a method of the
  output manager; which of them the terminal shows is decided by the quiet and debug
  settings (\<open>prints\<close> below).
\<close>

record 'fs world =
  fsys :: 'fs
  trace :: "event list"

definition emit :: "level \<Rightarrow> message \<Rightarrow> 'fs world \<Rightarrow> 'fs world" where
  "emit l m w = w\<lparr>trace := trace w @ [(l, m)]\<rparr>"

text \<open>
  \<^verbatim>\<open>OutputManager\<close>. A call of its \<^verbatim>\<open>Success\<close>, \<^verbatim>\<open>Error\<close>, \<^verbatim>\<open>Warning\<close>, \<^verbatim>\<open>Info\<close>,
  \<^verbatim>\<open>Debug\<close> or \<^verbatim>\<open>List\<close> method is a report at that level; the method prints it
  unless the manager is quiet, and a debug message only in debug mode. The printers
  that the other packages call directly obey the same two settings, which the root
  command hands to the printing library before a command runs; what \<^verbatim>\<open>fmt.Printf\<close>
  writes is always shown.
\<close>

record OutputManager =
  Colors :: bool
  Icons :: bool
  ProgressBars :: bool
  Quiet :: bool
  VerboseMode :: bool
  DebugMode :: bool

definition NewOutputManager ::
  "bool \<Rightarrow> bool \<Rightarrow> bool \<Rightarrow> bool \<Rightarrow> bool \<Rightarrow> bool \<Rightarrow> OutputManager" where
  "NewOutputManager colors icons progressBars quiet' verbose' debug' =
     \<lparr>Colors = colors, Icons = icons, ProgressBars = progressBars, Quiet = quiet',
      VerboseMode = verbose', DebugMode = debug'\<rparr>"

definition prints :: "OutputManager \<Rightarrow> level \<Rightarrow> bool" where
  "prints om l =
     (if l = LStdout then True
      else if Quiet om then False
      else if l = LDebug then DebugMode om
      else True)"

definition report :: "OutputManager \<Rightarrow> level \<Rightarrow> message \<Rightarrow> 'fs world \<Rightarrow> 'fs world" where
  "report om l m w = emit l m w"

text \<open>\<^verbatim>\<open>Confirm\<close>: the default when quiet, else the answer of the prompt.\<close>

definition Confirm :: "env \<Rightarrow> OutputManager \<Rightarrow> string \<Rightarrow> bool \<Rightarrow> string + bool" where
  "Confirm e om question defaultValue =
     (if Quiet om then Inr defaultValue
      else (case ConfirmShow e of Inl err \<Rightarrow> Inl err | Inr result \<Rightarrow> Inr result))"

section \<open>File system operations (internal/utils)\<close>

record FileSystemOperations =
  DryRun :: bool
  Backup :: bool

definition NewFileSystemOperations :: "bool \<Rightarrow> bool \<Rightarrow> FileSystemOperations" where
  "NewFileSystemOperations dryRun' backup' = \<lparr>DryRun = dryRun', Backup = backup'\<rparr>"

text \<open>The permission bits \<^verbatim>\<open>0755\<close> and \<^verbatim>\<open>0644\<close>.\<close>

definition mode_0755 :: nat where
  "mode_0755 = 493"

definition mode_0644 :: nat where
  "mode_0644 = 420"

definition CreateDirectory ::
  "'fs os_prims \<Rightarrow> FileSystemOperations \<Rightarrow> string \<Rightarrow> nat \<Rightarrow> 'fs world \<Rightarrow>
     (fs_error + unit) \<times> 'fs world" where
  "CreateDirectory os fso path mode w =
     (if DryRun fso then (Inr (), emit LInfo (WouldCreateDirectory path mode) w)
      else
        (case os_Stat os (fsys w) path of
           StatOk isDir \<Rightarrow>
             if isDir then (Inr (), emit LDebug (DirectoryAlreadyExists path) w)
             else (Inl (PathExistsNotDirectory path), w)
         | _ \<Rightarrow>
             (case os_MkdirAll os (fsys w) path mode of
                (Inl err, fs') \<Rightarrow> (Inl (FailedCreateDirectory path err), w\<lparr>fsys := fs'\<rparr>)
              | (Inr _, fs') \<Rightarrow>
                  (Inr (), emit LSuccess (CreatedDirectory path) (w\<lparr>fsys := fs'\<rparr>)))))"

definition BackupFile ::
  "'fs os_prims \<Rightarrow> env \<Rightarrow> FileSystemOperations \<Rightarrow> string \<Rightarrow> 'fs world \<Rightarrow>
     (fs_error + unit) \<times> 'fs world" where
  "BackupFile os e fso path w =
     (if DryRun fso then (Inr (), emit LInfo (WouldBackupFile path) w)
      else
        (let timestamp = Now e;
             backupPath = path @ ''.backup-'' @ timestamp
         in case os_CopyFile os (fsys w) path backupPath of
              (Inl err, fs') \<Rightarrow> (Inl (FailedCreateBackup backupPath err), w\<lparr>fsys := fs'\<rparr>)
            | (Inr _, fs') \<Rightarrow>
                (Inr (), emit LInfo (CreatedBackup backupPath) (w\<lparr>fsys := fs'\<rparr>))))"

definition CreateFile ::
  "'fs os_prims \<Rightarrow> env \<Rightarrow> FileSystemOperations \<Rightarrow> string \<Rightarrow> string \<Rightarrow> nat \<Rightarrow> 'fs world \<Rightarrow>
     (fs_error + unit) \<times> 'fs world" where
  "CreateFile os e fso path content mode w =
     (if DryRun fso then (Inr (), emit LInfo (WouldCreateFile path (length content)) w)
      else
        (case (if Backup fso
               then (case os_Stat os (fsys w) path of
                       StatOk _ \<Rightarrow> BackupFile os e fso path w
                     | _ \<Rightarrow> (Inr (), w))
               else (Inr (), w)) of
           (Inl err, w1) \<Rightarrow> (Inl (FailedBackupExisting err), w1)
         | (Inr _, w1) \<Rightarrow>
             (let dir = Dir path
              in case os_MkdirAll os (fsys w1) dir mode_0755 of
                   (Inl err, fs2) \<Rightarrow>
                     (Inl (FailedCreateParentDirectory dir err), w1\<lparr>fsys := fs2\<rparr>)
                 | (Inr _, fs2) \<Rightarrow>
                     (case os_OpenFile os fs2 path mode of
                        (Inl err, fs3) \<Rightarrow> (Inl (FailedCreateFile path err), w1\<lparr>fsys := fs3\<rparr>)
                      | (Inr _, fs3) \<Rightarrow>
                          (case os_WriteString os fs3 path content of
                             (Inl err, fs4) \<Rightarrow>
                               (Inl (FailedWriteContent path err), w1\<lparr>fsys := fs4\<rparr>)
                           | (Inr _, fs4) \<Rightarrow>
                               (Inr (), emit LSuccess (CreatedFile path) (w1\<lparr>fsys := fs4\<rparr>)))))))"

definition PathExists :: "'fs os_prims \<Rightarrow> 'fs \<Rightarrow> string \<Rightarrow> bool" where
  "PathExists os fs path = (case os_Stat os fs path of StatOk _ \<Rightarrow> True | _ \<Rightarrow> False)"

definition CreateSymlink ::
  "'fs os_prims \<Rightarrow> FileSystemOperations \<Rightarrow> string \<Rightarrow> string \<Rightarrow> 'fs world \<Rightarrow>
     (fs_error + unit) \<times> 'fs world" where
  "CreateSymlink os fso target linkPath w =
     (if DryRun fso then (Inr (), emit LInfo (WouldCreateSymlink linkPath target) w)
      else if \<not> PathExists os (fsys w) target then (Inl (SymlinkTargetMissing target), w)
      else
        (case (if PathExists os (fsys w) linkPath then os_Remove os (fsys w) linkPath
               else (Inr (), fsys w)) of
           (Inl err, fs1) \<Rightarrow> (Inl (FailedRemoveExistingSymlink linkPath err), w\<lparr>fsys := fs1\<rparr>)
         | (Inr _, fs1) \<Rightarrow>
             (case os_Symlink os fs1 target linkPath of
                (Inl err, fs2) \<Rightarrow>
                  (Inl (FailedCreateSymlink linkPath target err), w\<lparr>fsys := fs2\<rparr>)
              | (Inr _, fs2) \<Rightarrow>
                  (Inr (), emit LSuccess (CreatedSymlink linkPath target) (w\<lparr>fsys := fs2\<rparr>)))))"

section \<open>Loading the configuration (internal/config)\<close>

text \<open>
  \<^verbatim>\<open>Load\<close>: an empty path stands for the default location; a file that does not
  exist gives the defaults; an existing one is decoded onto the defaults and the
  result validated.
\<close>

definition Load ::
  "'fs os_prims \<Rightarrow> env \<Rightarrow> string \<Rightarrow> 'fs world \<Rightarrow> (config_error + Config) \<times> 'fs world" where
  "Load os e configPath w =
     (case (if configPath = []
            then (case GetConfigPath e of
                    Inl err \<Rightarrow> Inl (FailedDetermineConfigPath err)
                  | Inr p \<Rightarrow> Inr p)
            else Inr configPath) of
        Inl err \<Rightarrow> (Inl err, w)
      | Inr configPath \<Rightarrow>
          if os_Stat os (fsys w) configPath = StatNotExist
          then (Inr (DefaultConfig e), emit LDebug (ConfigNotFoundUsingDefaults configPath) w)
          else
            (case os_DecodeFile os (fsys w) configPath (DefaultConfig e) of
               Inl err \<Rightarrow> (Inl (FailedParseConfigFile configPath err), w)
             | Inr config \<Rightarrow>
                 (case Validate config of
                    Inl err \<Rightarrow> (Inl (InvalidConfiguration err), w)
                  | Inr _ \<Rightarrow> (Inr config, emit LDebug (LoadedConfiguration configPath) w))))"

section \<open>The mkcd command (cmd)\<close>

text \<open>
  The package-level flag variables of package cmd, those of the root command and
  those of the mkcd command, set by the command line before a command runs.
\<close>

record Flags =
  cfgFile :: string
  profile :: string
  dryRun :: bool
  verbose :: bool
  quiet :: bool
  debug :: bool
  force :: bool
  interactive :: bool
  backup :: bool
  gitInit :: bool
  gitRemote :: string
  template :: string
  editorName :: string
  editorFlag :: bool
  touchFiles :: "string list"
  readme :: bool
  gitignore :: string
  license :: string
  mode :: string
  parentMode :: string
  symlink :: string
  temp :: bool
  expire :: string

text \<open>The flags as the command line leaves them when no option is given.\<close>

definition noFlags :: Flags where
  "noFlags =
     \<lparr>cfgFile = [], profile = [], dryRun = False, verbose = False, quiet = False,
      debug = False, force = False, interactive = False, backup = False,
      gitInit = False, gitRemote = [], template = [], editorName = [],
      editorFlag = False, touchFiles = [], readme = False, gitignore = [],
      license = [], mode = [], parentMode = [], symlink = [], temp = False,
      expire = []\<rparr>"

record MkcdConfig =
  Mkcd_Git :: bool
  Mkcd_GitRemote :: string
  Mkcd_Template :: string
  Mkcd_Editor :: bool
  Mkcd_Readme :: bool
  Mkcd_Gitignore :: string
  Mkcd_License :: string
  Mkcd_Touch :: "string list"
  Mkcd_Mode :: string
  Mkcd_ParentMode :: string
  Mkcd_Symlink :: string
  Mkcd_Temp :: bool
  Mkcd_Expire :: string

text \<open>
  \<^verbatim>\<open>mergeConfigWithFlags\<close>: the struct literal first, then the four assignments that
  take the profile's value where the flag left the field empty.
\<close>

definition mergeConfigWithFlags :: "Flags \<Rightarrow> ProfileConfig \<Rightarrow> MkcdConfig" where
  "mergeConfigWithFlags fl profileConfig =
     (let merged =
            \<lparr>Mkcd_Git = gitInit fl \<or> Profile_Git profileConfig,
             Mkcd_GitRemote = gitRemote fl,
             Mkcd_Template = template fl,
             Mkcd_Editor = editorFlag fl \<or> Profile_Editor profileConfig \<or> editorName fl \<noteq> [],
             Mkcd_Readme = readme fl \<or> Profile_Readme profileConfig,
             Mkcd_Gitignore = gitignore fl,
             Mkcd_License = license fl,
             Mkcd_Touch = touchFiles fl,
             Mkcd_Mode = mode fl,
             Mkcd_ParentMode = parentMode fl,
             Mkcd_Symlink = symlink fl,
             Mkcd_Temp = temp fl,
             Mkcd_Expire = expire fl\<rparr>;
          merged = (if Mkcd_Template merged = []
                    then merged\<lparr>Mkcd_Template := Profile_Template profileConfig\<rparr>
                    else merged);
          merged = (if Mkcd_Gitignore merged = []
                    then merged\<lparr>Mkcd_Gitignore := Profile_Gitignore profileConfig\<rparr>
                    else merged);
          merged = (if Mkcd_License merged = []
                    then merged\<lparr>Mkcd_License := Profile_License profileConfig\<rparr>
                    else merged);
          merged = (if length (Mkcd_Touch merged) = 0
                    then merged\<lparr>Mkcd_Touch := Profile_Touch profileConfig\<rparr>
                    else merged)
      in merged)"

text \<open>
  The collaborators of the orchestrator that are outside these files: the document
  generator (package internal/files), the git manager's three operations and the
  editor launcher. Each is a step on the world that returns its error text or
  success; the orchestrator is modelled for any such steps.
\<close>

record GenerationContext =
  ProjectPath :: string
  Author :: string
  Email :: string

record GitManager =
  GM_DryRun :: bool
  GM_Verbose :: bool
  GM_UserName :: string
  GM_UserEmail :: string

definition NewGitManager :: "bool \<Rightarrow> bool \<Rightarrow> string \<Rightarrow> string \<Rightarrow> GitManager" where
  "NewGitManager dryRun' verbose' userName userEmail =
     \<lparr>GM_DryRun = dryRun', GM_Verbose = verbose', GM_UserName = userName,
      GM_UserEmail = userEmail\<rparr>"

record LaunchOptions =
  EditorName :: string
  Path :: string
  Wait :: bool
  CreateMissing :: bool

type_synonym 'fs step = "'fs world \<Rightarrow> (string + unit) \<times> 'fs world"

record 'fs collaborators =
  GenerateReadme :: "FileSystemOperations \<Rightarrow> bool \<Rightarrow> bool \<Rightarrow> GenerationContext \<Rightarrow> 'fs step"
  GenerateGitignore ::
    "FileSystemOperations \<Rightarrow> bool \<Rightarrow> bool \<Rightarrow> GenerationContext \<Rightarrow> string \<Rightarrow> 'fs step"
  GenerateLicense ::
    "FileSystemOperations \<Rightarrow> bool \<Rightarrow> bool \<Rightarrow> GenerationContext \<Rightarrow> string \<Rightarrow> 'fs step"
  InitRepository :: "GitManager \<Rightarrow> string \<Rightarrow> string \<Rightarrow> 'fs step"
  AddRemote :: "GitManager \<Rightarrow> string \<Rightarrow> string \<Rightarrow> string \<Rightarrow> 'fs step"
  CreateInitialCommit :: "GitManager \<Rightarrow> string \<Rightarrow> string \<Rightarrow> 'fs step"
  Launch :: "bool \<Rightarrow> bool \<Rightarrow> LaunchOptions \<Rightarrow> 'fs step"

text \<open>The errors of the command, one constructor per \<^verbatim>\<open>fmt.Errorf\<close>.\<close>

datatype mkcd_error =
    FailedLoadConfiguration config_error
  | FailedGetProfile config_error
  | FailedGetConfigPath config_error
  | InvalidConfigurationReported
  | FailedGetCurrentDirectory
  | FailedGetAbsolutePath path_error
  | FailedDetermineTargetPath mkcd_error
  | PathValidationFailed path_error
  | FailedGetConfirmation string
  | FailedCreateDirectoryStructure fs_error
  | FailedGenerateReadme string
  | FailedGenerateGitignore string
  | FailedGenerateLicense string
  | FailedGenerateProjectFiles mkcd_error
  | FailedInitializeGitRepository string
  | FailedAddGitRemote string

definition determineTargetPath ::
  "env \<Rightarrow> string \<Rightarrow> MkcdConfig \<Rightarrow> Config \<Rightarrow> mkcd_error + string" where
  "determineTargetPath e dirName mkcdConfig cfg =
     (case (if Mkcd_Temp mkcdConfig
            then (let tempDir = Core_TempDir (Core cfg);
                      tempDir = (if tempDir = [] then TempDir e else tempDir)
                  in Inr (Join [tempDir, dirName]))
            else (case Getwd e of
                    None \<Rightarrow> Inl FailedGetCurrentDirectory
                  | Some cwd \<Rightarrow> Inr (Join [cwd, dirName]))) of
        Inl err \<Rightarrow> Inl err
      | Inr targetPath \<Rightarrow>
          (case GetAbsolutePath e targetPath of
             Inl err \<Rightarrow> Inl (FailedGetAbsolutePath err)
           | Inr absPath \<Rightarrow> Inr absPath))"

text \<open>
  The loop of \<^verbatim>\<open>createDirectoryStructure\<close> over the touch files: a failed
  \<^verbatim>\<open>CreateFile\<close> is handed to the output manager as a warning and the loop goes on.
\<close>

fun touchLoop ::
  "'fs os_prims \<Rightarrow> env \<Rightarrow> FileSystemOperations \<Rightarrow> OutputManager \<Rightarrow> string \<Rightarrow> string list \<Rightarrow>
     'fs world \<Rightarrow> 'fs world" where
  "touchLoop os e fsOps outputMgr targetPath [] w = w"
| "touchLoop os e fsOps outputMgr targetPath (fileName # rest) w =
     (let filePath = Join [targetPath, fileName]
      in case CreateFile os e fsOps filePath [] mode_0644 w of
           (Inl err, w1) \<Rightarrow>
             touchLoop os e fsOps outputMgr targetPath rest
               (report outputMgr LWarning (FailedToCreateFile fileName err) w1)
         | (Inr _, w1) \<Rightarrow> touchLoop os e fsOps outputMgr targetPath rest w1)"

definition createDirectoryStructure ::
  "'fs os_prims \<Rightarrow> env \<Rightarrow> string \<Rightarrow> MkcdConfig \<Rightarrow> FileSystemOperations \<Rightarrow> OutputManager \<Rightarrow>
     'fs world \<Rightarrow> (fs_error + unit) \<times> 'fs world" where
  "createDirectoryStructure os e targetPath mkcdConfig fsOps outputMgr w =
     (let dirMode = mode_0755;
          w0 = (if Mkcd_Mode mkcdConfig \<noteq> []
                then report outputMgr LDebug (CustomModeSpecified (Mkcd_Mode mkcdConfig)) w
                else w)
      in if Mkcd_Symlink mkcdConfig \<noteq> []
         then CreateSymlink os fsOps (Mkcd_Symlink mkcdConfig) targetPath w0
         else
           (case CreateDirectory os fsOps targetPath dirMode w0 of
              (Inl err, w1) \<Rightarrow> (Inl err, w1)
            | (Inr _, w1) \<Rightarrow>
                (Inr (), touchLoop os e fsOps outputMgr targetPath (Mkcd_Touch mkcdConfig) w1)))"

definition generateProjectFiles ::
  "'fs collaborators \<Rightarrow> Flags \<Rightarrow> string \<Rightarrow> MkcdConfig \<Rightarrow> Config \<Rightarrow> FileSystemOperations \<Rightarrow>
     'fs world \<Rightarrow> (mkcd_error + unit) \<times> 'fs world" where
  "generateProjectFiles co fl targetPath mkcdConfig cfg fsOps w =
     (let ctx = \<lparr>ProjectPath = targetPath, Author = Git_UserName (Git cfg),
                 Email = Git_UserEmail (Git cfg)\<rparr>
      in case (if Mkcd_Readme mkcdConfig
               then GenerateReadme co fsOps (dryRun fl) (verbose fl) ctx w
               else (Inr (), w)) of
           (Inl err, w1) \<Rightarrow> (Inl (FailedGenerateReadme err), w1)
         | (Inr _, w1) \<Rightarrow>
             (case (if Mkcd_Gitignore mkcdConfig \<noteq> []
                    then GenerateGitignore co fsOps (dryRun fl) (verbose fl) ctx
                           (Mkcd_Gitignore mkcdConfig) w1
                    else (Inr (), w1)) of
                (Inl err, w2) \<Rightarrow> (Inl (FailedGenerateGitignore err), w2)
              | (Inr _, w2) \<Rightarrow>
                  (case (if Mkcd_License mkcdConfig \<noteq> []
                         then GenerateLicense co fsOps (dryRun fl) (verbose fl) ctx
                                (Mkcd_License mkcdConfig) w2
                         else (Inr (), w2)) of
                     (Inl err, w3) \<Rightarrow> (Inl (FailedGenerateLicense err), w3)
                   | (Inr _, w3) \<Rightarrow> (Inr (), w3))))"

definition openInEditor :: "'fs collaborators \<Rightarrow> Flags \<Rightarrow> string \<Rightarrow> MkcdConfig \<Rightarrow> 'fs step" where
  "openInEditor co fl targetPath mkcdConfig w =
     (let options = \<lparr>EditorName = editorName fl, Path = targetPath, Wait = False,
                     CreateMissing = dryRun fl\<rparr>
      in Launch co (dryRun fl) (verbose fl) options w)"

text \<open>\<^verbatim>\<open>generateShellScript\<close> has no failing path: it returns \<^verbatim>\<open>nil\<close> always.\<close>

definition generateShellScript :: "Flags \<Rightarrow> string \<Rightarrow> OutputManager \<Rightarrow> 'fs world \<Rightarrow> 'fs world" where
  "generateShellScript fl targetPath outputMgr w =
     (let w1 = (if \<not> quiet fl
                then report outputMgr LInfo (ToChangeDirectoryRun targetPath)
                       (report outputMgr LSuccess (DirectoryCreated targetPath) w)
                else w)
      in emit LStdout (CdCommand targetPath) w1)"

text \<open>
  \<^verbatim>\<open>executeMkcd\<close>, in three parts that follow one another in the body of the
  source function: the git block, then the editor and the shell script
  (\<open>finishMkcd\<close>); the steps that create things (\<open>buildMkcd\<close>); and the head of
  the function, which resolves and validates the target and asks for confirmation.
\<close>

definition finishMkcd ::
  "'fs collaborators \<Rightarrow> Flags \<Rightarrow> string \<Rightarrow> MkcdConfig \<Rightarrow> OutputManager \<Rightarrow> 'fs world \<Rightarrow>
     (mkcd_error + unit) \<times> 'fs world" where
  "finishMkcd co fl targetPath mkcdConfig outputMgr w =
     (let w1 = (if Mkcd_Editor mkcdConfig
                then (case openInEditor co fl targetPath mkcdConfig w of
                        (Inl err, w') \<Rightarrow> report outputMgr LWarning (FailedOpenEditor err) w'
                      | (Inr _, w') \<Rightarrow> w')
                else w)
      in (Inr (), generateShellScript fl targetPath outputMgr w1))"

definition gitMkcd ::
  "'fs collaborators \<Rightarrow> Flags \<Rightarrow> string \<Rightarrow> Config \<Rightarrow> MkcdConfig \<Rightarrow> OutputManager \<Rightarrow> 'fs world \<Rightarrow>
     (mkcd_error + unit) \<times> 'fs world" where
  "gitMkcd co fl targetPath cfg mkcdConfig outputMgr w =
     (if Mkcd_Git mkcdConfig then
        (let gitMgr = NewGitManager (dryRun fl) (verbose fl) (Git_UserName (Git cfg))
                        (Git_UserEmail (Git cfg))
         in case InitRepository co gitMgr targetPath (Git_DefaultBranch (Git cfg)) w of
              (Inl err, w1) \<Rightarrow> (Inl (FailedInitializeGitRepository err), w1)
            | (Inr _, w1) \<Rightarrow>
                (case (if Mkcd_GitRemote mkcdConfig \<noteq> []
                       then AddRemote co gitMgr targetPath (Git_DefaultRemoteName (Git cfg))
                              (Mkcd_GitRemote mkcdConfig) w1
                       else (Inr (), w1)) of
                   (Inl err, w2) \<Rightarrow> (Inl (FailedAddGitRemote err), w2)
                 | (Inr _, w2) \<Rightarrow>
                     (case CreateInitialCommit co gitMgr targetPath ''Initial commit'' w2 of
                        (Inl err, w3) \<Rightarrow>
                          (Inr (), report outputMgr LWarning (FailedInitialCommit err) w3)
                      | (Inr _, w3) \<Rightarrow> (Inr (), w3))))
      else (Inr (), w))"

definition buildMkcd ::
  "'fs os_prims \<Rightarrow> env \<Rightarrow> 'fs collaborators \<Rightarrow> Flags \<Rightarrow> string \<Rightarrow> Config \<Rightarrow> MkcdConfig \<Rightarrow>
     OutputManager \<Rightarrow> FileSystemOperations \<Rightarrow> 'fs world \<Rightarrow> (mkcd_error + unit) \<times> 'fs world" where
  "buildMkcd os e co fl targetPath cfg mkcdConfig outputMgr fsOps w =
     (case createDirectoryStructure os e targetPath mkcdConfig fsOps outputMgr w of
        (Inl err, w1) \<Rightarrow> (Inl (FailedCreateDirectoryStructure err), w1)
      | (Inr _, w1) \<Rightarrow>
          (case generateProjectFiles co fl targetPath mkcdConfig cfg fsOps w1 of
             (Inl err, w2) \<Rightarrow> (Inl (FailedGenerateProjectFiles err), w2)
           | (Inr _, w2) \<Rightarrow>
               (case gitMkcd co fl targetPath cfg mkcdConfig outputMgr w2 of
                  (Inl err, w3) \<Rightarrow> (Inl err, w3)
                | (Inr _, w3) \<Rightarrow> finishMkcd co fl targetPath mkcdConfig outputMgr w3)))"

definition executeMkcd ::
  "'fs os_prims \<Rightarrow> env \<Rightarrow> 'fs collaborators \<Rightarrow> Flags \<Rightarrow> string \<Rightarrow> Config \<Rightarrow> MkcdConfig \<Rightarrow>
     OutputManager \<Rightarrow> FileSystemOperations \<Rightarrow> PathValidator \<Rightarrow> 'fs world \<Rightarrow>
     (mkcd_error + unit) \<times> 'fs world" where
  "executeMkcd os e co fl dirName cfg mkcdConfig outputMgr fsOps pathValidator w =
     (case determineTargetPath e dirName mkcdConfig cfg of
        Inl err \<Rightarrow> (Inl (FailedDetermineTargetPath err), w)
      | Inr targetPath \<Rightarrow>
          (case (case ValidatePath e pathValidator targetPath of
                   Inl err \<Rightarrow>
                     if \<not> force fl then Inl (PathValidationFailed err)
                     else Inr (report outputMgr LWarning (ValidationFailedButForced err) w)
                 | Inr _ \<Rightarrow> Inr w) of
             Inl err \<Rightarrow> (Inl err, w)
           | Inr w1 \<Rightarrow>
               (case (if interactive fl \<and> \<not> dryRun fl
                      then Confirm e outputMgr targetPath True
                      else Inr True) of
                  Inl err \<Rightarrow> (Inl (FailedGetConfirmation err), w1)
                | Inr confirmed \<Rightarrow>
                    if \<not> confirmed then (Inr (), report outputMgr LInfo OperationCancelled w1)
                    else buildMkcd os e co fl targetPath cfg mkcdConfig outputMgr fsOps w1)))"

text \<open>\<^verbatim>\<open>runMkcd\<close>: load the configuration, pick the profile, merge, execute.\<close>

definition runMkcd ::
  "'fs os_prims \<Rightarrow> env \<Rightarrow> 'fs collaborators \<Rightarrow> Flags \<Rightarrow> string \<Rightarrow> 'fs world \<Rightarrow>
     (mkcd_error + unit) \<times> 'fs world" where
  "runMkcd os e co fl dirName w =
     (case Load os e (cfgFile fl) w of
        (Inl err, w1) \<Rightarrow> (Inl (FailedLoadConfiguration err), w1)
      | (Inr cfg, w1) \<Rightarrow>
          (case (if profile fl \<noteq> []
                 then (case GetProfile cfg (profile fl) of
                         Inl err \<Rightarrow> Inl (FailedGetProfile err)
                       | Inr pc \<Rightarrow> Inr (pc, w1))
                 else (case GetProfile cfg (Core_DefaultProfile (Core cfg)) of
                         Inl err \<Rightarrow> Inr (emptyProfile, emit LDebug NoDefaultProfileFound w1)
                       | Inr pc \<Rightarrow> Inr (pc, w1))) of
             Inl err \<Rightarrow> (Inl err, w1)
           | Inr (profileConfig, w2) \<Rightarrow>
               (let outputMgr = NewOutputManager (Output_Colors (Output cfg))
                                  (Output_Icons (Output cfg)) (Output_ProgressBars (Output cfg))
                                  (quiet fl) (verbose fl) (debug fl);
                    fsOps = NewFileSystemOperations (dryRun fl)
                              (backup fl \<or> Core_BackupEnabled (Core cfg));
                    pathValidator = NewPathValidator (Safety_ForbiddenPaths (Safety cfg))
                                      (Safety_MaxDepth (Safety cfg));
                    mergedConfig = mergeConfigWithFlags fl profileConfig
                in executeMkcd os e co fl dirName cfg mergedConfig outputMgr fsOps
                     pathValidator w2)))"

section \<open>The config validate command (cmd)\<close>

definition runConfigValidate ::
  "'fs os_prims \<Rightarrow> env \<Rightarrow> Flags \<Rightarrow> 'fs world \<Rightarrow> (mkcd_error + unit) \<times> 'fs world" where
  "runConfigValidate os e fl w =
     (let outputMgr = NewOutputManager True True True (quiet fl) (verbose fl) (debug fl)
      in case (if cfgFile fl = []
               then (case GetConfigPath e of
                       Inl err \<Rightarrow> Inl (FailedGetConfigPath err)
                     | Inr p \<Rightarrow> Inr p)
               else Inr (cfgFile fl)) of
           Inl err \<Rightarrow> (Inl err, w)
         | Inr configPath \<Rightarrow>
             (case Load os e configPath
                     (report outputMgr LInfo (ValidatingConfiguration configPath) w) of
                (Inl err, w1) \<Rightarrow>
                  (Inl InvalidConfigurationReported,
                   report outputMgr LError (ConfigurationValidationFailed err) w1)
              | (Inr cfg, w1) \<Rightarrow>
                  (let validationErrors =
                         (if Core_DefaultProfile (Core cfg) \<noteq> [] \<and>
                             Profiles cfg (Core_DefaultProfile (Core cfg)) = None
                          then [DefaultProfileDoesNotExist (Core_DefaultProfile (Core cfg))]
                          else []) @
                         (if Templates_Directory (Templates cfg) \<noteq> [] \<and>
                             os_Stat os (fsys w1) (Templates_Directory (Templates cfg)) =
                               StatNotExist
                          then [TemplateDirectoryMissing (Templates_Directory (Templates cfg))]
                          else []) @
                         (if Core_TempDir (Core cfg) \<noteq> [] \<and>
                             os_Stat os (fsys w1) (Core_TempDir (Core cfg)) = StatNotExist
                          then [TempDirectoryMissing (Core_TempDir (Core cfg))]
                          else [])
                   in if length validationErrors > 0
                      then (Inr (),
                            report outputMgr LList (WarningList validationErrors)
                              (report outputMgr LWarning ConfigurationHasWarnings w1))
                      else (Inr (), report outputMgr LSuccess ConfigurationIsValid w1))))"

section \<open>A sample environment\<close>

text \<open>
  To run the model on concrete inputs: a file system in memory (a map from a path to
  a directory, a file with its content, or a link), where opening a file fails for
  the paths listed as read-only and a configuration file is decoded by the given
  function of its content; collaborators that all succeed but for the document
  generators named as failing; and a usual environment.
\<close>

datatype node = DirNode | FileNode string | LinkNode string

type_synonym memfs = "string \<rightharpoonup> node"

definition memStat :: "memfs \<Rightarrow> string \<Rightarrow> stat_result" where
  "memStat fs p =
     (case fs p of
        None \<Rightarrow> StatNotExist
      | Some DirNode \<Rightarrow> StatOk True
      | Some _ \<Rightarrow> StatOk False)"

definition memOS ::
  "string list \<Rightarrow> (string \<Rightarrow> Config \<Rightarrow> string + Config) \<Rightarrow> memfs os_prims" where
  "memOS readOnly decode =
     \<lparr>os_Stat = memStat,
      os_MkdirAll = (\<lambda>fs p m.
        case fs p of
          None \<Rightarrow> (Inr (), fs(p \<mapsto> DirNode))
        | Some DirNode \<Rightarrow> (Inr (), fs)
        | Some _ \<Rightarrow> (Inl ''not a directory'', fs)),
      os_OpenFile = (\<lambda>fs p m.
        if p \<in> set readOnly then (Inl ''permission denied'', fs)
        else (case fs p of
                Some DirNode \<Rightarrow> (Inl ''is a directory'', fs)
              | _ \<Rightarrow> (Inr (), fs(p \<mapsto> FileNode [])))),
      os_WriteString = (\<lambda>fs p content. (Inr (), fs(p \<mapsto> FileNode content))),
      os_Remove = (\<lambda>fs p. (Inr (), fs(p := None))),
      os_Symlink = (\<lambda>fs target' linkPath. (Inr (), fs(linkPath \<mapsto> LinkNode target'))),
      os_CopyFile = (\<lambda>fs src dst.
        case fs src of
          Some (FileNode content) \<Rightarrow> (Inr (), fs(dst \<mapsto> FileNode content))
        | _ \<Rightarrow> (Inl ''failed to open source file'', fs)),
      os_DecodeFile = (\<lambda>fs p c.
        case fs p of
          Some (FileNode content) \<Rightarrow> decode content c
        | _ \<Rightarrow> Inl ''cannot read file'')\<rparr>"

definition sampleCollaborators :: "string list \<Rightarrow> memfs collaborators" where
  "sampleCollaborators failing =
     \<lparr>GenerateReadme = (\<lambda>fsOps dry verb ctx w.
        if ''readme'' \<in> set failing then (Inl ''cannot write README.md'', w) else (Inr (), w)),
      GenerateGitignore = (\<lambda>fsOps dry verb ctx flavor w.
        if ''gitignore'' \<in> set failing then (Inl ''cannot write .gitignore'', w)
        else (Inr (), w)),
      GenerateLicense = (\<lambda>fsOps dry verb ctx flavor w.
        if ''license'' \<in> set failing then (Inl ''unknown license'', w) else (Inr (), w)),
      InitRepository = (\<lambda>gm path' branch w. (Inr (), w)),
      AddRemote = (\<lambda>gm path' name url w. (Inr (), w)),
      CreateInitialCommit = (\<lambda>gm path' msg w. (Inr (), w)),
      Launch = (\<lambda>dry verb options w. (Inr (), w))\<rparr>"

definition sampleEnv :: env where
  "sampleEnv =
     \<lparr>UserHomeDir = Some ''/home/user'', HomedirDir = Some ''/home/user'',
      Getwd = Some ''/home/user/work'', TempDir = ''/tmp'', Now = ''20250101-120000'',
      ConfirmShow = Inr True\<rparr>"

text \<open>A decoder for the sample: the file content names the decoded configuration.\<close>

definition sampleDecode :: "string \<Rightarrow> Config \<Rightarrow> string + Config" where
  "sampleDecode content c =
     (if content = ''history_limit = -1; max_depth = 0''
      then Inr (c\<lparr>Core := (Core c)\<lparr>Core_HistoryLimit := - 1\<rparr>,
                  Safety := (Safety c)\<lparr>Safety_MaxDepth := 0\<rparr>\<rparr>)
      else if content = [] then Inr c
      else Inl ''toml: syntax error'')"

text \<open>A world whose configuration file violates two rules of the validation.\<close>

definition twoViolations :: "memfs world" where
  "twoViolations =
     \<lparr>fsys = [''/etc/mkcd.conf'' \<mapsto> FileNode ''history_limit = -1; max_depth = 0''],
      trace = []\<rparr>"

text \<open>
  A world where the working directory holds a directory \<open>proj\<close> and a file
  \<open>notes\<close>, and an empty world.
\<close>

definition populatedWorld :: "memfs world" where
  "populatedWorld =
     \<lparr>fsys = [''/home/user/work/proj'' \<mapsto> DirNode,
              ''/home/user/work/notes'' \<mapsto> FileNode ''todo''],
      trace = []\<rparr>"

definition emptyWorld :: "memfs world" where
  "emptyWorld = \<lparr>fsys = Map.empty, trace = []\<rparr>"

text \<open>
  An invocation that asks for a readme and two touch files, on a file system where
  the first touch file cannot be opened for writing.
\<close>

definition lockedOS :: "memfs os_prims" where
  "lockedOS = memOS [''/home/user/work/fresh/locked.txt''] sampleDecode"

definition touchFlags :: Flags where
  "touchFlags = noFlags\<lparr>touchFiles := [''locked.txt'', ''main.py''], readme := True\<rparr>"

text \<open>
  The sample file system with the existence check of a real one for a path below a
  regular file: there \<^verbatim>\<open>os.Stat\<close> fails because a component of the path is not a
  directory, an error that \<^verbatim>\<open>os.IsNotExist\<close> does not recognise. And a world whose
  working directory holds one regular file, \<open>empty.conf\<close>.
\<close>

definition memStatNotDir :: "memfs \<Rightarrow> string \<Rightarrow> stat_result" where
  "memStatNotDir fs p =
     (if \<exists>q \<in> set (prefixes p).
           q \<noteq> p \<and> HasPrefix (drop (length q) p) [Separator] \<and>
           (case fs q of Some (FileNode _) \<Rightarrow> True | _ \<Rightarrow> False)
      then StatError
      else memStat fs p)"

definition notDirOS :: "memfs os_prims" where
  "notDirOS = (memOS [] sampleDecode)\<lparr>os_Stat := memStatNotDir\<rparr>"

definition fileWorld :: "memfs world" where
  "fileWorld = \<lparr>fsys = [''/home/user/work/empty.conf'' \<mapsto> FileNode []], trace = []\<rparr>"

section \<open>Properties of the path validator\<close>

lemma isOk_simps [simp]: "isOk (Inr x)" "\<not> isOk (Inl e)"
  by (simp_all add: isOk_def)

text \<open>The model of \<^verbatim>\<open>Clean\<close>, \<^verbatim>\<open>Join\<close> and \<^verbatim>\<open>Dir\<close> on examples of their rules.\<close>

lemma Clean_examples:
  "map Clean
     [''abc'', ''abc/def'', ''.'', ''..'', ''../..'', ''../../abc'', ''/abc'', ''/'', [],
      ''abc/'', ''./'', ''../'', ''/abc/'', ''abc//def//ghi'', ''//abc'', ''//abc//'',
      ''abc/./def'', ''/./abc/def'', ''abc/.'', ''abc/def/ghi/../jkl'',
      ''abc/def/../ghi/../jkl'', ''abc/def/..'', ''abc/def/../..'', ''/abc/def/../..'',
      ''abc/def/../../..'', ''/abc/def/../../..'',
      ''abc/def/../../../ghi/jkl/../../../mno'', ''/../abc'', ''abc/./../def'',
      ''abc/../../././../def''] =
     [''abc'', ''abc/def'', ''.'', ''..'', ''../..'', ''../../abc'', ''/abc'', ''/'', ''.'',
      ''abc'', ''.'', ''..'', ''/abc'', ''abc/def/ghi'', ''/abc'', ''/abc'',
      ''abc/def'', ''/abc/def'', ''abc'', ''abc/def/jkl'',
      ''abc/jkl'', ''abc'', ''.'', ''/'',
      ''..'', ''/'',
      ''../../mno'', ''/abc'', ''def'',
      ''../../def'']"
  by code_simp

lemma Join_Dir_examples:
  "Join [''/home/user'', ''.config'', ''mkcd''] = ''/home/user/.config/mkcd'' \<and>
   Join [[], ''.config''] = ''.config'' \<and>
   Join [''/home/user/work'', ''../../../etc/x''] = ''/etc/x'' \<and>
   Join [''/home/user/work'', ''/etc/x''] = ''/home/user/work/etc/x'' \<and>
   Join [[], []] = [] \<and>
   Dir ''/a/b/c.txt'' = ''/a/b'' \<and> Dir ''c.txt'' = ''.'' \<and> Dir ''/c.txt'' = ''/''"
  by code_simp

lemma forbiddenLoop_isOk_iff:
  "isOk (forbiddenLoop fs p) \<longleftrightarrow>
     (\<forall>f \<in> set fs. p \<noteq> f \<and> \<not> HasPrefix p (f @ [Separator]))"
  by (induction fs) auto

lemma count_JoinSep:
  "segs \<noteq> [] \<Longrightarrow> \<forall>s \<in> set segs. Separator \<notin> set s \<Longrightarrow>
     count_list (JoinSep segs) Separator = length segs - 1"
proof (induction segs rule: JoinSep.induct)
  case 1
  then show ?case by simp
next
  case (2 s)
  then show ?case by (simp add: count_list_0_iff)
next
  case (3 s t ss)
  then show ?case by (simp add: count_list_0_iff)
qed

lemma JoinSep_Cons:
  "JoinSep (s # ss) = s @ (if ss = [] then [] else Separator # JoinSep ss)"
  by (cases ss) simp_all

lemma IsAbs_append:
  "s \<noteq> [] \<Longrightarrow> IsAbs (s @ r) \<longleftrightarrow> hd s = Separator"
  by (cases s) (auto simp: IsAbs_def HasPrefix_def)

lemma JoinSep_not_abs:
  assumes "segs \<noteq> []" "\<forall>s \<in> set segs. segment s"
  shows "\<not> IsAbs (JoinSep segs)"
proof -
  obtain s ss where segs: "segs = s # ss"
    using assms(1) by (cases segs) auto
  with assms(2) have s: "s \<noteq> []" "Separator \<notin> set s"
    by (simp_all add: segment_def)
  then have "hd s \<noteq> Separator"
    by (cases s) auto
  with s(1) show ?thesis
    unfolding segs JoinSep_Cons by (simp only: IsAbs_append not_False_eq_True)
qed

lemma pathDepth_relPath:
  assumes "segs \<noteq> []" "\<forall>s \<in> set segs. segment s"
  shows "pathDepth (relPath segs) = int (length segs) - 1"
proof -
  have "count_list (JoinSep segs) Separator = length segs - 1"
    using assms by (intro count_JoinSep) (auto simp: segment_def)
  moreover have "\<not> IsAbs (JoinSep segs)"
    using assms by (rule JoinSep_not_abs)
  moreover have "length segs \<ge> 1"
    using assms(1) by (cases segs) auto
  ultimately show ?thesis
    by (simp add: pathDepth_def relPath_def Count_def Let_def of_nat_diff)
qed

lemma pathDepth_absPathOf:
  assumes "segs \<noteq> []" "\<forall>s \<in> set segs. segment s"
  shows "pathDepth (absPathOf segs) = int (length segs) - 1"
proof -
  have "count_list (JoinSep segs) Separator = length segs - 1"
    using assms by (intro count_JoinSep) (auto simp: segment_def)
  moreover have "length segs \<ge> 1"
    using assms(1) by (cases segs) auto
  ultimately show ?thesis
    by (simp add: pathDepth_def absPathOf_def Count_def Let_def IsAbs_def HasPrefix_def
        of_nat_diff)
qed

lemma cleanStep_cases:
  "cleanStep rooted out elem = out \<or> cleanStep rooted out elem = tl out \<or>
   (cleanStep rooted out elem = elem # out \<and> elem \<noteq> [])"
  unfolding cleanStep_def by (cases out) auto

lemma cleanStep_sepfree:
  assumes "\<forall>x \<in> set out. x \<noteq> [] \<and> Separator \<notin> set x" "Separator \<notin> set elem"
  shows "\<forall>x \<in> set (cleanStep rooted out elem). x \<noteq> [] \<and> Separator \<notin> set x"
proof -
  have "set (tl out) \<subseteq> set out"
    by (cases out) auto
  with assms cleanStep_cases[of rooted out elem] show ?thesis
    by auto
qed

lemma foldl_cleanStep_sepfree:
  assumes "\<forall>x \<in> set out. x \<noteq> [] \<and> Separator \<notin> set x" "\<forall>x \<in> set elems. Separator \<notin> set x"
  shows "\<forall>x \<in> set (foldl (cleanStep rooted) out elems). x \<noteq> [] \<and> Separator \<notin> set x"
  using assms
proof (induction elems arbitrary: out)
  case Nil
  then show ?case by simp
next
  case (Cons a elems)
  have step: "\<forall>x \<in> set (cleanStep rooted out a). x \<noteq> [] \<and> Separator \<notin> set x"
    using Cons.prems by (intro cleanStep_sepfree) auto
  have rest: "\<forall>x \<in> set elems. Separator \<notin> set x"
    using Cons.prems(2) by simp
  show ?case
    using Cons.IH[OF step rest] by (simp only: foldl_Cons)
qed

lemma splitSep_sepfree: "\<forall>x \<in> set (splitSep p). Separator \<notin> set x"
  by (induction p) (auto split: list.splits)

lemma JoinSep_hd_not_sep:
  assumes "\<forall>x \<in> set xs. x \<noteq> [] \<and> Separator \<notin> set x"
  shows "\<not> prefix [Separator] (JoinSep xs)"
proof (cases xs)
  case Nil
  then show ?thesis by simp
next
  case (Cons x ys)
  with assms have "x \<noteq> []" "Separator \<notin> set x" by auto
  then obtain c cs where x: "x = c # cs" and c: "c \<noteq> Separator" by (cases x) auto
  have "JoinSep xs = c # (cs @ (if ys = [] then [] else Separator # JoinSep ys))"
    unfolding Cons x by (simp add: JoinSep_Cons)
  with c show ?thesis by simp
qed

lemma Clean_no_double_sep: "\<not> prefix [Separator, Separator] (Clean p)"
proof -
  define out where "out = rev (foldl (cleanStep (IsAbs p)) [] (splitSep p))"
  have "\<forall>x \<in> set (foldl (cleanStep (IsAbs p)) [] (splitSep p)). x \<noteq> [] \<and> Separator \<notin> set x"
    using splitSep_sepfree[of p] by (intro foldl_cleanStep_sepfree) simp_all
  then have out: "\<forall>x \<in> set out. x \<noteq> [] \<and> Separator \<notin> set x"
    by (simp add: out_def)
  then have nosep: "\<not> prefix [Separator] (JoinSep out)"
    by (rule JoinSep_hd_not_sep)
  have dot: "\<not> prefix [Separator, Separator] ''.''"
    by (simp add: Separator_def)
  have cases: "Clean p = ''.'' \<or> Clean p = Separator # JoinSep out \<or> Clean p = JoinSep out"
    unfolding Clean_def out_def Let_def by simp
  from nosep have "\<not> prefix [Separator, Separator] (Separator # JoinSep out)"
    by simp
  moreover from nosep have "\<not> prefix [Separator, Separator] (JoinSep out)"
    by (cases "JoinSep out") auto
  ultimately show ?thesis
    using cases dot by metis
qed

lemma Join_no_double_sep: "\<not> prefix [Separator, Separator] (Join es)"
  by (induction es) (simp_all add: Clean_no_double_sep)

lemma Abs_no_double_sep:
  assumes "Abs e path = Some absPath"
  shows "\<not> prefix [Separator, Separator] absPath"
proof (cases "IsAbs path")
  case True
  with assms have "absPath = Clean path" by (simp add: Abs_def)
  then show ?thesis by (simp only: Clean_no_double_sep not_False_eq_True)
next
  case False
  with assms obtain wd where "absPath = Join [wd, path]"
    by (auto simp: Abs_def split: option.splits)
  then show ?thesis by (simp only: Join_no_double_sep not_False_eq_True)
qed

lemma GetAbsolutePath_Abs:
  assumes "GetAbsolutePath e path = Inr absPath"
  shows "\<exists>path'. Abs e path' = Some absPath"
  using assms unfolding GetAbsolutePath_def
  by (auto split: if_splits option.splits sum.splits)

lemma GetAbsolutePath_no_double_sep:
  assumes "GetAbsolutePath e path = Inr absPath"
  shows "\<not> prefix [Separator, Separator] absPath"
  using GetAbsolutePath_Abs[OF assms] Abs_no_double_sep by blast

lemma forbiddenLoop_root_entry:
  assumes "p \<noteq> [Separator]" "\<not> prefix [Separator, Separator] p"
  shows "forbiddenLoop fs p = forbiddenLoop (removeAll [Separator] fs) p"
  using assms by (induction fs) (auto simp: HasPrefix_def)

section \<open>The claims about the path validator\<close>



text \<open>
  C2, as the code has it. The depth that is compared with the limit is the number
  of separators of the path, not counting the leading one of an absolute path: one
  less than the number of segments. So a path of \<open>n\<close> segments, relative or
  absolute, is accepted exactly when \<open>n \<le> MaxDepth + 1\<close>: a path of \<open>MaxDepth + 1\<close>
  segments is accepted and one of \<open>MaxDepth + 2\<close> is rejected.
\<close>

theorem checkPathDepth_boundary:
  assumes "segs \<noteq> []" and "\<forall>s \<in> set segs. segment s"
  shows "(isOk (checkPathDepth pv (relPath segs)) \<longleftrightarrow> int (length segs) \<le> MaxDepth pv + 1) \<and>
         (isOk (checkPathDepth pv (absPathOf segs)) \<longleftrightarrow> int (length segs) \<le> MaxDepth pv + 1)"
  using pathDepth_relPath[OF assms] pathDepth_absPathOf[OF assms]
  by (auto simp: checkPathDepth_def Let_def)

theorem checkPathDepth_boundary_witness:
  "isOk (checkPathDepth (NewPathValidator [] 2) (relPath [''a'', ''b'', ''c''])) \<and>
   \<not> isOk (checkPathDepth (NewPathValidator [] 2) (relPath [''a'', ''b'', ''c'', ''d''])) \<and>
   isOk (checkPathDepth (NewPathValidator [] 2) (absPathOf [''a'', ''b'', ''c''])) \<and>
   \<not> isOk (checkPathDepth (NewPathValidator [] 2) (absPathOf [''a'', ''b'', ''c'', ''d'']))"
proof -
  have s3: "\<forall>s \<in> set [''a'', ''b'', ''c'']. segment s"
    by (simp add: segment_def Separator_def)
  have s4: "\<forall>s \<in> set [''a'', ''b'', ''c'', ''d'']. segment s"
    by (simp add: segment_def Separator_def)
  show ?thesis
    using checkPathDepth_boundary[OF _ s3, of "NewPathValidator [] 2"]
      checkPathDepth_boundary[OF _ s4, of "NewPathValidator [] 2"]
    by (simp add: NewPathValidator_def)
qed

text \<open>
  The claim C2 as the specification words it fails: with a limit of two, the
  relative path \<open>a/b/c\<close> and the absolute path \<open>/a/b/c\<close> have three segments,
  one more than the limit, and the check accepts both.
\<close>

theorem checkPathDepth_counterexample:
  "relPath [''a'', ''b'', ''c''] = ''a/b/c'' \<and>
   absPathOf [''a'', ''b'', ''c''] = ''/a/b/c'' \<and>
   int (length [''a'', ''b'', ''c'']) = MaxDepth (NewPathValidator [] 2) + 1 \<and>
   checkPathDepth (NewPathValidator [] 2) ''a/b/c'' = Inr () \<and>
   checkPathDepth (NewPathValidator [] 2) ''/a/b/c'' = Inr ()"
  by (simp add: relPath_def absPathOf_def NewPathValidator_def checkPathDepth_def
      pathDepth_def Count_def IsAbs_def HasPrefix_def Separator_def)

lemma Contains_prefix: "prefix sub s \<Longrightarrow> Contains s sub"
  by (cases s) simp_all

lemma cleanStep_keeps_dotdot:
  assumes "out \<noteq> []" and "last out = ''..''"
  shows "cleanStep False out elem \<noteq> [] \<and> last (cleanStep False out elem) = ''..''"
proof -
  obtain x below where out: "out = x # below"
    using assms(1) by (cases out) auto
  show ?thesis
  proof (cases "x = ''..''")
    case True
    then have "cleanStep False out elem = out \<or> cleanStep False out elem = ''..'' # out \<or>
        cleanStep False out elem = elem # out"
      unfolding cleanStep_def out by simp
    with assms show ?thesis by auto
  next
    case False
    with assms out have below: "below \<noteq> []" "last below = ''..''"
      by (auto split: if_splits)
    from False have "cleanStep False out elem = out \<or> cleanStep False out elem = below \<or>
        cleanStep False out elem = elem # out"
      unfolding cleanStep_def out by simp
    with assms below show ?thesis by auto
  qed
qed

lemma foldl_cleanStep_keeps_dotdot:
  assumes "out \<noteq> []" and "last out = ''..''"
  shows "foldl (cleanStep False) out elems \<noteq> [] \<and>
         last (foldl (cleanStep False) out elems) = ''..''"
  using assms
proof (induction elems arbitrary: out)
  case Nil
  then show ?case by simp
next
  case (Cons a elems)
  have step: "cleanStep False out a \<noteq> []" "last (cleanStep False out a) = ''..''"
    using cleanStep_keeps_dotdot[OF Cons.prems] by simp_all
  show ?case
    unfolding foldl_Cons by (rule Cons.IH[OF step])
qed

lemma splitSep_dotdot:
  "path = ''..'' \<or> HasPrefix path ''../'' \<Longrightarrow> \<exists>rest. splitSep path = ''..'' # rest"
  by (auto simp: HasPrefix_def prefix_def Separator_def split: list.splits)

lemma Clean_dotdot_start:
  assumes "path = ''..'' \<or> HasPrefix path ''../''"
  shows "prefix ''..'' (Clean path)"
proof -
  from assms have notabs: "\<not> IsAbs path" and nonempty: "path \<noteq> []"
    by (auto simp: IsAbs_def HasPrefix_def Separator_def prefix_def)
  obtain rest where split: "splitSep path = ''..'' # rest"
    using splitSep_dotdot[OF assms] by blast
  define out where "out = foldl (cleanStep False) [''..''] rest"
  have first: "cleanStep False [] ''..'' = [''..'']"
    by (simp add: cleanStep_def)
  have fold: "foldl (cleanStep False) [] (splitSep path) = out"
    unfolding split out_def by (simp only: foldl_Cons first)
  have "out \<noteq> [] \<and> last out = ''..''"
    unfolding out_def by (rule foldl_cleanStep_keeps_dotdot) simp_all
  then obtain ys where rev: "rev out = ''..'' # ys"
    by (cases out rule: rev_cases) auto
  have "Clean path = JoinSep (rev out)"
    using notabs nonempty fold rev by (simp add: Clean_def Let_def)
  then have "Clean path = ''..'' @ (if ys = [] then [] else Separator # JoinSep ys)"
    unfolding rev by (simp only: JoinSep_Cons)
  then show ?thesis
    by (simp add: prefix_def)
qed

text \<open>
  C10. With the root among the forbidden prefixes, that entry rejects the path
  \<open>/\<close> and no other: its nested-path test asks for the prefix \<open>//\<close>, which no
  absolute path has that \<^verbatim>\<open>GetAbsolutePath\<close> hands to the check, so for every path
  other than \<open>/\<close> the check decides as if the root were not listed (the other
  forbidden prefixes alone decide), and \<open>/home/user/project\<close> passes the check
  under the default policy.
\<close>

theorem root_forbidden_only_exact:
  "(''/'' \<in> set (ForbiddenPaths pv) \<longrightarrow> \<not> isOk (checkForbiddenPaths pv ''/'')) \<and>
   (GetAbsolutePath e path = Inr absPath \<longrightarrow> \<not> HasPrefix absPath (''/'' @ [Separator])) \<and>
   (absPath \<noteq> ''/'' \<and> \<not> HasPrefix absPath (''/'' @ [Separator]) \<longrightarrow>
      checkForbiddenPaths pv absPath =
      checkForbiddenPaths (pv\<lparr>ForbiddenPaths := removeAll ''/'' (ForbiddenPaths pv)\<rparr>) absPath) \<and>
   checkForbiddenPaths
     (NewPathValidator (Safety_ForbiddenPaths (Safety (DefaultConfig e)))
        (Safety_MaxDepth (Safety (DefaultConfig e))))
     ''/home/user/project'' = Inr ()"
proof -
  have root: "''/'' = [Separator]" and root2: "''/'' @ [Separator] = [Separator, Separator]"
    by (simp_all add: Separator_def)
  have "''/'' \<in> set (ForbiddenPaths pv) \<Longrightarrow> \<not> isOk (checkForbiddenPaths pv ''/'')"
    unfolding checkForbiddenPaths_def forbiddenLoop_isOk_iff by blast
  moreover have "GetAbsolutePath e path = Inr absPath \<Longrightarrow>
      \<not> HasPrefix absPath (''/'' @ [Separator])"
    unfolding root2 HasPrefix_def by (rule GetAbsolutePath_no_double_sep)
  moreover have "absPath \<noteq> ''/'' \<Longrightarrow> \<not> HasPrefix absPath (''/'' @ [Separator]) \<Longrightarrow>
      checkForbiddenPaths pv absPath =
      checkForbiddenPaths (pv\<lparr>ForbiddenPaths := removeAll ''/'' (ForbiddenPaths pv)\<rparr>) absPath"
    unfolding root root2 HasPrefix_def checkForbiddenPaths_def
    using forbiddenLoop_root_entry[of absPath "ForbiddenPaths pv"] by simp
  moreover have "checkForbiddenPaths
     (NewPathValidator (Safety_ForbiddenPaths (Safety (DefaultConfig e)))
        (Safety_MaxDepth (Safety (DefaultConfig e))))
     ''/home/user/project'' = Inr ()"
    by (simp add: DefaultConfig_def NewPathValidator_def checkForbiddenPaths_def
        HasPrefix_def Separator_def Let_def)
  ultimately show ?thesis by blast
qed

theorem root_forbidden_only_exact_witness:
  "\<not> isOk (checkForbiddenPaths (NewPathValidator [''/'', ''/etc''] 10) ''/'') \<and>
   GetAbsolutePath sampleEnv ''project'' = Inr ''/home/user/work/project'' \<and>
   \<not> HasPrefix ''/home/user/work/project'' ''//'' \<and>
   checkForbiddenPaths (NewPathValidator [''/'', ''/etc''] 10) ''/home/user/work/project'' =
     checkForbiddenPaths (NewPathValidator [''/etc''] 10) ''/home/user/work/project'' \<and>
   checkForbiddenPaths (NewPathValidator [''/'', ''/etc''] 10) ''/home/user/work/project'' = Inr ()"
proof -
  have abs: "GetAbsolutePath sampleEnv ''project'' = Inr ''/home/user/work/project''"
    by (simp add: GetAbsolutePath_def Abs_def sampleEnv_def HasPrefix_def IsAbs_def
        Separator_def Clean_def cleanStep_def Let_def)
  show ?thesis
    using abs root_forbidden_only_exact
      [of "NewPathValidator [''/'', ''/etc''] 10" sampleEnv "''project''"
          "''/home/user/work/project''"]
    by (simp add: NewPathValidator_def HasPrefix_def Separator_def checkForbiddenPaths_def)
qed

text \<open>
  C3, as the code has it. The path is cleaned first and the two dots are looked for
  in the cleaned path. So validation rejects every path whose cleaned form still
  contains two dots in a row, with the sanitising error, and this is so for every
  relative path that starts with a \<open>..\<close> element; the \<open>..\<close> rule rejects no path
  whose cleaned form is free of them.
\<close>

theorem ValidatePath_dotdot:
  "(Contains (Clean path) ''..'' \<longrightarrow>
      SanitizePath path = Inl (DangerousDotDot path) \<and>
      ValidatePath e pv path = Inl (SanitizationFailed (DangerousDotDot path))) \<and>
   (path = ''..'' \<or> HasPrefix path ''../'' \<longrightarrow> Contains (Clean path) ''..'') \<and>
   (\<not> Contains (Clean path) ''..'' \<longrightarrow> SanitizePath path \<noteq> Inl (DangerousDotDot p))"
proof -
  have "Contains (Clean path) ''..'' \<Longrightarrow> SanitizePath path = Inl (DangerousDotDot path)"
    by (simp add: SanitizePath_def Let_def)
  moreover have "SanitizePath path = Inl (DangerousDotDot path) \<Longrightarrow>
      ValidatePath e pv path = Inl (SanitizationFailed (DangerousDotDot path))"
    by (simp add: ValidatePath_def)
  moreover have "path = ''..'' \<or> HasPrefix path ''../'' \<Longrightarrow> Contains (Clean path) ''..''"
    by (rule Contains_prefix) (rule Clean_dotdot_start)
  moreover have "\<not> Contains (Clean path) ''..'' \<Longrightarrow> SanitizePath path \<noteq> Inl (DangerousDotDot p)"
    by (simp add: SanitizePath_def Let_def)
  ultimately show ?thesis by blast
qed

theorem ValidatePath_dotdot_witness:
  "HasPrefix ''../../etc/cron.d'' ''../'' \<and>
   Contains (Clean ''../../etc/cron.d'') ''..'' \<and>
   SanitizePath ''../../etc/cron.d'' = Inl (DangerousDotDot ''../../etc/cron.d'') \<and>
   ValidatePath sampleEnv (NewPathValidator [] 10) ''../../etc/cron.d'' =
     Inl (SanitizationFailed (DangerousDotDot ''../../etc/cron.d'')) \<and>
   \<not> Contains (Clean ''a/b'') ''..'' \<and> SanitizePath ''a/b'' \<noteq> Inl (DangerousDotDot ''a/b'')"
proof -
  have pre: "HasPrefix ''../../etc/cron.d'' ''../''"
    by (simp add: HasPrefix_def)
  have ab: "Clean ''a/b'' = ''a/b''"
    by (simp add: Clean_def cleanStep_def IsAbs_def HasPrefix_def Separator_def Let_def)
  have no: "\<not> Contains ''a/b'' ''..''"
    by simp
  show ?thesis
    using pre ab no
      ValidatePath_dotdot[of "''../../etc/cron.d''" sampleEnv "NewPathValidator [] 10"]
      ValidatePath_dotdot[of "''a/b''" _ _ "''a/b''"]
    by simp
qed

text \<open>
  The claim C3 as the specification words it fails: \<open>a/../b\<close> has a \<open>..\<close>
  element, is cleaned to \<open>b\<close>, and passes the whole validation under the default
  policy.
\<close>

theorem ValidatePath_dotdot_counterexample:
  "''..'' \<in> set (splitSep ''a/../b'') \<and>
   Contains ''a/../b'' ''..'' \<and>
   SanitizePath ''a/../b'' = Inr ''b'' \<and>
   ValidatePath sampleEnv
     (NewPathValidator (Safety_ForbiddenPaths (Safety (DefaultConfig sampleEnv)))
        (Safety_MaxDepth (Safety (DefaultConfig sampleEnv))))
     ''a/../b'' = Inr ()"
proof -
  have clean: "Clean ''a/../b'' = ''b''"
    by (simp add: Clean_def cleanStep_def IsAbs_def HasPrefix_def Separator_def Let_def)
  have sane: "SanitizePath ''a/../b'' = Inr ''b''"
    by (simp add: SanitizePath_def clean Let_def)
  have abs: "GetAbsolutePath sampleEnv ''b'' = Inr ''/home/user/work/b''"
    by (simp add: GetAbsolutePath_def Abs_def sampleEnv_def HasPrefix_def IsAbs_def
        Separator_def Clean_def cleanStep_def Let_def)
  have forb: "checkForbiddenPaths
     (NewPathValidator (Safety_ForbiddenPaths (Safety (DefaultConfig sampleEnv)))
        (Safety_MaxDepth (Safety (DefaultConfig sampleEnv)))) ''/home/user/work/b'' = Inr ()"
    by (simp add: DefaultConfig_def NewPathValidator_def checkForbiddenPaths_def
        HasPrefix_def Separator_def Let_def)
  have depth: "checkPathDepth
     (NewPathValidator (Safety_ForbiddenPaths (Safety (DefaultConfig sampleEnv)))
        (Safety_MaxDepth (Safety (DefaultConfig sampleEnv)))) ''b'' = Inr ()"
    by (simp add: DefaultConfig_def NewPathValidator_def checkPathDepth_def pathDepth_def
        Count_def IsAbs_def HasPrefix_def Separator_def Let_def)
  have chars: "checkDangerousCharacters pv ''b'' = Inr ()" for pv
    by (simp add: checkDangerousCharacters_def dangerousPatterns_def isSpace_def)
  have split: "splitSep ''a/../b'' = [''a'', ''..'', ''b'']"
    by (simp add: Separator_def)
  show ?thesis
    by (simp add: ValidatePath_def sane abs forb depth chars split Separator_def)
qed

section \<open>The claims about the configuration\<close>

text \<open>
  C1, as the code has it. In the merged configuration, git and readme are the
  disjunction of the invocation flag and the profile flag; editor is the
  disjunction of the invocation's open-editor flag, the profile flag, and the
  invocation naming an editor (a non-empty editor name); template, gitignore and
  license are the invocation's value when it is not empty and the profile's
  otherwise; the touch list is the invocation's list when it is not empty and the
  profile's otherwise, never both.
\<close>

theorem mergeConfigWithFlags_precedence:
  "Mkcd_Git (mergeConfigWithFlags fl pc) = (gitInit fl \<or> Profile_Git pc) \<and>
   Mkcd_Readme (mergeConfigWithFlags fl pc) = (readme fl \<or> Profile_Readme pc) \<and>
   Mkcd_Editor (mergeConfigWithFlags fl pc) =
     (editorFlag fl \<or> Profile_Editor pc \<or> editorName fl \<noteq> []) \<and>
   Mkcd_Template (mergeConfigWithFlags fl pc) =
     (if template fl = [] then Profile_Template pc else template fl) \<and>
   Mkcd_Gitignore (mergeConfigWithFlags fl pc) =
     (if gitignore fl = [] then Profile_Gitignore pc else gitignore fl) \<and>
   Mkcd_License (mergeConfigWithFlags fl pc) =
     (if license fl = [] then Profile_License pc else license fl) \<and>
   Mkcd_Touch (mergeConfigWithFlags fl pc) =
     (if touchFiles fl = [] then Profile_Touch pc else touchFiles fl)"
  by (simp add: mergeConfigWithFlags_def Let_def)

theorem mergeConfigWithFlags_precedence_witness:
  "Profiles (DefaultConfig sampleEnv) ''nodejs'' \<noteq> None \<and>
   Mkcd_Gitignore (mergeConfigWithFlags (noFlags\<lparr>gitignore := ''python''\<rparr>)
     (the (Profiles (DefaultConfig sampleEnv) ''nodejs''))) = ''python'' \<and>
   Mkcd_Touch (mergeConfigWithFlags (noFlags\<lparr>gitignore := ''python''\<rparr>)
     (the (Profiles (DefaultConfig sampleEnv) ''nodejs''))) = [''package.json'', ''index.js''] \<and>
   Mkcd_Git (mergeConfigWithFlags (noFlags\<lparr>gitignore := ''python''\<rparr>)
     (the (Profiles (DefaultConfig sampleEnv) ''nodejs''))) \<and>
   \<not> Mkcd_Readme (mergeConfigWithFlags (noFlags\<lparr>gitignore := ''python''\<rparr>)
     (the (Profiles (DefaultConfig sampleEnv) ''nodejs'')))"
  using mergeConfigWithFlags_precedence
    [of "noFlags\<lparr>gitignore := ''python''\<rparr>" "the (Profiles (DefaultConfig sampleEnv) ''nodejs'')"]
  by (simp add: DefaultConfig_def emptyProfile_def noFlags_def Let_def)

text \<open>
  The claim C1 as the specification words it fails for the editor option: with an
  editor named on the command line and neither the open-editor flag nor the
  profile's editor flag set, the merged editor option is on.
\<close>

theorem mergeConfigWithFlags_counterexample:
  "\<not> editorFlag (noFlags\<lparr>editorName := ''vim''\<rparr>) \<and>
   \<not> Profile_Editor emptyProfile \<and>
   Mkcd_Editor (mergeConfigWithFlags (noFlags\<lparr>editorName := ''vim''\<rparr>) emptyProfile) \<noteq>
     (editorFlag (noFlags\<lparr>editorName := ''vim''\<rparr>) \<or> Profile_Editor emptyProfile)"
  by (simp add: mergeConfigWithFlags_def noFlags_def emptyProfile_def Let_def)

text \<open>
  C6. Deleting the profile that is the default profile fails with the error of the
  default-profile conflict, and the configuration after the call is the one before
  it: the registry still has every entry and the designation is the same.
\<close>

theorem DeleteProfile_default:
  "DeleteProfile c (Core_DefaultProfile (Core c)) =
     (Inl (CannotDeleteDefaultProfile (Core_DefaultProfile (Core c))), c) \<and>
   Profiles (snd (DeleteProfile c (Core_DefaultProfile (Core c)))) = Profiles c \<and>
   Core_DefaultProfile (Core (snd (DeleteProfile c (Core_DefaultProfile (Core c))))) =
     Core_DefaultProfile (Core c)"
  by (simp add: DeleteProfile_def)

theorem DeleteProfile_default_witness:
  "Core_DefaultProfile (Core (DefaultConfig sampleEnv)) = ''default'' \<and>
   Profiles (DefaultConfig sampleEnv) ''default'' = Some emptyProfile \<and>
   DeleteProfile (DefaultConfig sampleEnv) ''default'' =
     (Inl (CannotDeleteDefaultProfile ''default''), DefaultConfig sampleEnv) \<and>
   Profiles (snd (DeleteProfile (DefaultConfig sampleEnv) ''default'')) ''default'' =
     Some emptyProfile"
proof -
  have d: "Core_DefaultProfile (Core (DefaultConfig sampleEnv)) = ''default''"
    by (simp add: DefaultConfig_def Let_def)
  have p: "Profiles (DefaultConfig sampleEnv) ''default'' = Some emptyProfile"
    by (simp add: DefaultConfig_def Let_def)
  show ?thesis
    using DeleteProfile_default[of "DefaultConfig sampleEnv"] d p by simp
qed

text \<open>
  C9, as the code has it. Where the existence check (\<^verbatim>\<open>os.Stat\<close>) of the
  configuration path, the given one or the default location when none is given,
  reports that the file does not exist, \<^verbatim>\<open>Load\<close> returns the default configuration
  and no error. Where the check reports anything else and decoding the file fails,
  \<^verbatim>\<open>Load\<close> returns the parse error and no configuration, and leaves the world as
  it was. Where no path is given and the default location cannot be determined,
  \<^verbatim>\<open>Load\<close> returns that error.
\<close>

theorem Load_missing_or_unparsable:
  "(((configPath \<noteq> [] \<and> p = configPath) \<or> (configPath = [] \<and> GetConfigPath e = Inr p)) \<and>
    os_Stat os (fsys w) p = StatNotExist \<longrightarrow>
      fst (Load os e configPath w) = Inr (DefaultConfig e) \<and>
      fsys (snd (Load os e configPath w)) = fsys w) \<and>
   (((configPath \<noteq> [] \<and> p = configPath) \<or> (configPath = [] \<and> GetConfigPath e = Inr p)) \<and>
    os_Stat os (fsys w) p \<noteq> StatNotExist \<and>
    os_DecodeFile os (fsys w) p (DefaultConfig e) = Inl err \<longrightarrow>
      Load os e configPath w = (Inl (FailedParseConfigFile p err), w)) \<and>
   (configPath = [] \<and> GetConfigPath e = Inl perr \<longrightarrow>
      Load os e configPath w = (Inl (FailedDetermineConfigPath perr), w))"
  by (auto simp: Load_def emit_def)

theorem Load_missing_or_unparsable_witness:
  "GetConfigPath sampleEnv = Inr ''/home/user/.config/mkcd/mkcd.conf'' \<and>
   fst (Load (memOS [] sampleDecode) sampleEnv [] \<lparr>fsys = Map.empty, trace = []\<rparr>) =
     Inr (DefaultConfig sampleEnv) \<and>
   fst (Load (memOS [] sampleDecode) sampleEnv ''/etc/mkcd.conf''
          \<lparr>fsys = Map.empty, trace = []\<rparr>) = Inr (DefaultConfig sampleEnv) \<and>
   Load (memOS [] sampleDecode) sampleEnv ''/etc/mkcd.conf''
     \<lparr>fsys = [''/etc/mkcd.conf'' \<mapsto> FileNode ''[core''], trace = []\<rparr> =
     (Inl (FailedParseConfigFile ''/etc/mkcd.conf'' ''toml: syntax error''),
      \<lparr>fsys = [''/etc/mkcd.conf'' \<mapsto> FileNode ''[core''], trace = []\<rparr>) \<and>
   fst (Load (memOS [] sampleDecode) (sampleEnv\<lparr>HomedirDir := None\<rparr>) [] emptyWorld) =
     Inl (FailedDetermineConfigPath FailedHomeDir)"
proof -
  have path: "GetConfigPath sampleEnv = Inr ''/home/user/.config/mkcd/mkcd.conf''"
    by (simp add: GetConfigPath_def sampleEnv_def Clean_def cleanStep_def IsAbs_def
        HasPrefix_def Separator_def Let_def)
  have nohome: "GetConfigPath (sampleEnv\<lparr>HomedirDir := None\<rparr>) = Inl FailedHomeDir"
    by (simp add: GetConfigPath_def)
  have none: "os_Stat (memOS [] sampleDecode) Map.empty q = StatNotExist" for q
    by (simp add: memOS_def memStat_def)
  have there: "os_Stat (memOS [] sampleDecode) [''/etc/mkcd.conf'' \<mapsto> FileNode ''[core'']
      ''/etc/mkcd.conf'' \<noteq> StatNotExist"
    by (simp add: memOS_def memStat_def)
  have bad: "os_DecodeFile (memOS [] sampleDecode) [''/etc/mkcd.conf'' \<mapsto> FileNode ''[core'']
      ''/etc/mkcd.conf'' (DefaultConfig sampleEnv) = Inl ''toml: syntax error''"
    by (simp add: memOS_def sampleDecode_def)
  show ?thesis
    using path nohome none there bad
      Load_missing_or_unparsable[of "[]" "''/home/user/.config/mkcd/mkcd.conf''" sampleEnv
        "memOS [] sampleDecode" "\<lparr>fsys = Map.empty, trace = []\<rparr>"]
      Load_missing_or_unparsable[of "''/etc/mkcd.conf''" "''/etc/mkcd.conf''" sampleEnv
        "memOS [] sampleDecode" "\<lparr>fsys = Map.empty, trace = []\<rparr>"]
      Load_missing_or_unparsable[of "''/etc/mkcd.conf''" "''/etc/mkcd.conf''" sampleEnv
        "memOS [] sampleDecode"
        "\<lparr>fsys = [''/etc/mkcd.conf'' \<mapsto> FileNode ''[core''], trace = []\<rparr>"
        "''toml: syntax error''"]
      Load_missing_or_unparsable[where configPath = "[]"
        and e = "sampleEnv\<lparr>HomedirDir := None\<rparr>" and os = "memOS [] sampleDecode"
        and w = emptyWorld and perr = FailedHomeDir]
    by simp
qed

text \<open>
  The claim C9 as the specification words it fails at two locators where no
  configuration source exists. Below the regular file \<open>empty.conf\<close> there is
  nothing, the existence check fails with an error other than that of a missing
  file, and \<^verbatim>\<open>Load\<close> goes on to decode and returns the parse error. With no locator
  given and no home directory known, on an empty file system, \<^verbatim>\<open>Load\<close> returns the
  error of the undetermined location.
\<close>

theorem Load_missing_counterexample:
  "fsys fileWorld ''/home/user/work/empty.conf/mkcd.conf'' = None \<and>
   os_Stat notDirOS (fsys fileWorld) ''/home/user/work/empty.conf/mkcd.conf'' = StatError \<and>
   fst (Load notDirOS sampleEnv ''/home/user/work/empty.conf/mkcd.conf'' fileWorld) =
     Inl (FailedParseConfigFile ''/home/user/work/empty.conf/mkcd.conf'' ''cannot read file'') \<and>
   fsys emptyWorld = Map.empty \<and>
   fst (Load (memOS [] sampleDecode) (sampleEnv\<lparr>HomedirDir := None\<rparr>) [] emptyWorld) =
     Inl (FailedDetermineConfigPath FailedHomeDir)"
proof -
  have absent: "fsys fileWorld ''/home/user/work/empty.conf/mkcd.conf'' = None"
    by (simp add: fileWorld_def)
  have stat: "os_Stat notDirOS (fsys fileWorld) ''/home/user/work/empty.conf/mkcd.conf'' =
      StatError"
    by code_simp
  have decode: "os_DecodeFile notDirOS (fsys fileWorld) ''/home/user/work/empty.conf/mkcd.conf''
      (DefaultConfig sampleEnv) = Inl ''cannot read file''"
    by (simp add: notDirOS_def memOS_def fileWorld_def)
  have load: "fst (Load notDirOS sampleEnv ''/home/user/work/empty.conf/mkcd.conf'' fileWorld) =
      Inl (FailedParseConfigFile ''/home/user/work/empty.conf/mkcd.conf'' ''cannot read file'')"
    by (simp add: Load_def stat decode)
  have empty: "fsys emptyWorld = Map.empty"
    by (simp add: emptyWorld_def)
  have nohome: "fst (Load (memOS [] sampleDecode) (sampleEnv\<lparr>HomedirDir := None\<rparr>) []
      emptyWorld) = Inl (FailedDetermineConfigPath FailedHomeDir)"
    by (simp add: Load_def GetConfigPath_def)
  show ?thesis
    using absent stat load empty nohome by blast
qed

lemma forbiddenAbsLoop_first:
  "forbiddenAbsLoop ps =
     (case filter (\<lambda>path. \<not> IsAbs path) ps of
        [] \<Rightarrow> Inr ()
      | q # qs \<Rightarrow> Inl (ForbiddenPathNotAbsolute q))"
  by (induction ps) simp_all

lemma Validate_first_violation:
  "Validate c = (case violations c of [] \<Rightarrow> Inr () | v # vs \<Rightarrow> Inl v)"
  unfolding Validate_def violations_def forbiddenAbsLoop_first
  by (simp split: list.splits)

lemma Load_invalid:
  assumes "configPath \<noteq> []"
    and "os_Stat os (fsys w) configPath \<noteq> StatNotExist"
    and "os_DecodeFile os (fsys w) configPath (DefaultConfig e) = Inr c"
    and "violations c = v # vs"
  shows "Load os e configPath w = (Inl (InvalidConfiguration v), w)"
  using assms by (simp add: Load_def Validate_first_violation)

text \<open>
  C5, as the code has it. Validation has one mode, the strict one: \<^verbatim>\<open>Validate\<close>
  returns the first rule that is violated, in the order history limit, maximum
  depth, default profile, forbidden paths, and succeeds when none is. \<^verbatim>\<open>Load\<close>
  uses it, and the validate command reports that one violation, as \<^verbatim>\<open>Load\<close>
  returned it, and stops.
\<close>

theorem Validate_strict_only:
  "Validate c = (case violations c of [] \<Rightarrow> Inr () | v # vs \<Rightarrow> Inl v) \<and>
   (cfgFile fl \<noteq> [] \<and>
    os_Stat os (fsys w) (cfgFile fl) \<noteq> StatNotExist \<and>
    os_DecodeFile os (fsys w) (cfgFile fl) (DefaultConfig e) = Inr c' \<and>
    violations c' = v' # vs' \<longrightarrow>
      runConfigValidate os e fl w =
        (Inl InvalidConfigurationReported,
         w\<lparr>trace := trace w @
              [(LInfo, ValidatingConfiguration (cfgFile fl)),
               (LError, ConfigurationValidationFailed (InvalidConfiguration v'))]\<rparr>))"
proof -
  have "runConfigValidate os e fl w =
        (Inl InvalidConfigurationReported,
         w\<lparr>trace := trace w @
              [(LInfo, ValidatingConfiguration (cfgFile fl)),
               (LError, ConfigurationValidationFailed (InvalidConfiguration v'))]\<rparr>)"
    if h: "cfgFile fl \<noteq> []" "os_Stat os (fsys w) (cfgFile fl) \<noteq> StatNotExist"
      "os_DecodeFile os (fsys w) (cfgFile fl) (DefaultConfig e) = Inr c'"
      "violations c' = v' # vs'"
  proof -
    define w0 where "w0 = report (NewOutputManager True True True (quiet fl) (verbose fl) (debug fl))
      LInfo (ValidatingConfiguration (cfgFile fl)) w"
    have fs: "fsys w0 = fsys w"
      by (simp add: w0_def report_def emit_def)
    have "Load os e (cfgFile fl) w0 = (Inl (InvalidConfiguration v'), w0)"
      using h by (intro Load_invalid) (simp_all add: fs)
    then show ?thesis
      using h(1) unfolding runConfigValidate_def Let_def w0_def
      by (simp add: report_def emit_def)
  qed
  then show ?thesis
    using Validate_first_violation by blast
qed

theorem Validate_strict_only_witness:
  "violations ((DefaultConfig sampleEnv)\<lparr>Core := (Core (DefaultConfig sampleEnv))\<lparr>Core_HistoryLimit := - 1\<rparr>,
      Safety := (Safety (DefaultConfig sampleEnv))\<lparr>Safety_MaxDepth := 0\<rparr>\<rparr>) =
     [HistoryLimitNegative, MaxDepthTooSmall] \<and>
   Validate ((DefaultConfig sampleEnv)\<lparr>Core := (Core (DefaultConfig sampleEnv))\<lparr>Core_HistoryLimit := - 1\<rparr>,
      Safety := (Safety (DefaultConfig sampleEnv))\<lparr>Safety_MaxDepth := 0\<rparr>\<rparr>) =
     Inl HistoryLimitNegative \<and>
   fst (runConfigValidate (memOS [] sampleDecode) sampleEnv
          (noFlags\<lparr>cfgFile := ''/etc/mkcd.conf''\<rparr>) twoViolations) =
     Inl InvalidConfigurationReported \<and>
   trace (snd (runConfigValidate (memOS [] sampleDecode) sampleEnv
          (noFlags\<lparr>cfgFile := ''/etc/mkcd.conf''\<rparr>) twoViolations)) =
     [(LInfo, ValidatingConfiguration ''/etc/mkcd.conf''),
      (LError, ConfigurationValidationFailed (InvalidConfiguration HistoryLimitNegative))]"
proof -
  let ?c = "(DefaultConfig sampleEnv)\<lparr>Core := (Core (DefaultConfig sampleEnv))\<lparr>Core_HistoryLimit := - 1\<rparr>,
      Safety := (Safety (DefaultConfig sampleEnv))\<lparr>Safety_MaxDepth := 0\<rparr>\<rparr>"
  have v: "violations ?c = [HistoryLimitNegative, MaxDepthTooSmall]"
    by (simp add: violations_def DefaultConfig_def Let_def IsAbs_def HasPrefix_def Separator_def)
  have f: "cfgFile (noFlags\<lparr>cfgFile := ''/etc/mkcd.conf''\<rparr>) = ''/etc/mkcd.conf''"
    by simp
  have st: "os_Stat (memOS [] sampleDecode) (fsys twoViolations) ''/etc/mkcd.conf'' \<noteq> StatNotExist"
    by (simp add: memOS_def memStat_def twoViolations_def)
  have dec: "os_DecodeFile (memOS [] sampleDecode) (fsys twoViolations) ''/etc/mkcd.conf''
     (DefaultConfig sampleEnv) = Inr ?c"
    by (simp add: memOS_def sampleDecode_def twoViolations_def)
  have tr: "trace twoViolations = []"
    by (simp add: twoViolations_def)
  show ?thesis
    using Validate_strict_only
      [where c = ?c and fl = "noFlags\<lparr>cfgFile := ''/etc/mkcd.conf''\<rparr>"
         and os = "memOS [] sampleDecode" and w = twoViolations and e = sampleEnv
         and c' = ?c and v' = HistoryLimitNegative and vs' = "[MaxDepthTooSmall]"]
    unfolding f using v st dec tr by simp
qed

text \<open>
  The claim C5 as the specification words it fails: a configuration file that
  violates two rules (a negative history limit and a maximum depth of zero) has two
  violations; \<^verbatim>\<open>Validate\<close> returns the first alone, and the validate command
  reports the first alone and returns its error.
\<close>

theorem Validate_collecting_counterexample:
  "os_DecodeFile (memOS [] sampleDecode) (fsys twoViolations) ''/etc/mkcd.conf''
     (DefaultConfig sampleEnv) =
     Inr ((DefaultConfig sampleEnv)\<lparr>Core := (Core (DefaultConfig sampleEnv))\<lparr>Core_HistoryLimit := - 1\<rparr>,
        Safety := (Safety (DefaultConfig sampleEnv))\<lparr>Safety_MaxDepth := 0\<rparr>\<rparr>) \<and>
   violations ((DefaultConfig sampleEnv)\<lparr>Core := (Core (DefaultConfig sampleEnv))\<lparr>Core_HistoryLimit := - 1\<rparr>,
      Safety := (Safety (DefaultConfig sampleEnv))\<lparr>Safety_MaxDepth := 0\<rparr>\<rparr>) =
     [HistoryLimitNegative, MaxDepthTooSmall] \<and>
   Validate ((DefaultConfig sampleEnv)\<lparr>Core := (Core (DefaultConfig sampleEnv))\<lparr>Core_HistoryLimit := - 1\<rparr>,
      Safety := (Safety (DefaultConfig sampleEnv))\<lparr>Safety_MaxDepth := 0\<rparr>\<rparr>) =
     Inl HistoryLimitNegative \<and>
   runConfigValidate (memOS [] sampleDecode) sampleEnv (noFlags\<lparr>cfgFile := ''/etc/mkcd.conf''\<rparr>)
     twoViolations =
     (Inl InvalidConfigurationReported,
      twoViolations\<lparr>trace :=
        [(LInfo, ValidatingConfiguration ''/etc/mkcd.conf''),
         (LError, ConfigurationValidationFailed (InvalidConfiguration HistoryLimitNegative))]\<rparr>)"
proof -
  let ?c = "(DefaultConfig sampleEnv)\<lparr>Core := (Core (DefaultConfig sampleEnv))\<lparr>Core_HistoryLimit := - 1\<rparr>,
      Safety := (Safety (DefaultConfig sampleEnv))\<lparr>Safety_MaxDepth := 0\<rparr>\<rparr>"
  have dec: "os_DecodeFile (memOS [] sampleDecode) (fsys twoViolations) ''/etc/mkcd.conf''
     (DefaultConfig sampleEnv) = Inr ?c"
    by (simp add: memOS_def sampleDecode_def twoViolations_def)
  have v: "violations ?c = [HistoryLimitNegative, MaxDepthTooSmall]"
    by (simp add: violations_def DefaultConfig_def Let_def IsAbs_def HasPrefix_def Separator_def)
  have val: "Validate ?c = Inl HistoryLimitNegative"
    by (simp add: Validate_first_violation v)
  have st: "os_Stat (memOS [] sampleDecode) (fsys twoViolations) ''/etc/mkcd.conf'' \<noteq> StatNotExist"
    by (simp add: memOS_def memStat_def twoViolations_def)
  have w0: "fsys (emit l m twoViolations) = fsys twoViolations" for l m
    by (simp add: emit_def)
  have load: "Load (memOS [] sampleDecode) sampleEnv ''/etc/mkcd.conf'' (emit l m twoViolations) =
      (Inl (InvalidConfiguration HistoryLimitNegative), emit l m twoViolations)" for l m
    using st dec v by (intro Load_invalid) (simp_all add: w0)
  have run: "runConfigValidate (memOS [] sampleDecode) sampleEnv
      (noFlags\<lparr>cfgFile := ''/etc/mkcd.conf''\<rparr>) twoViolations =
     (Inl InvalidConfigurationReported,
      twoViolations\<lparr>trace :=
        [(LInfo, ValidatingConfiguration ''/etc/mkcd.conf''),
         (LError, ConfigurationValidationFailed (InvalidConfiguration HistoryLimitNegative))]\<rparr>)"
    unfolding runConfigValidate_def Let_def
    by (simp add: report_def load) (simp add: emit_def twoViolations_def)
  show ?thesis
    using dec v val run by simp
qed

section \<open>The claims about the orchestrated run\<close>

lemma fsys_emit [simp]: "fsys (emit l m w) = fsys w"
  by (simp add: emit_def)

lemma fsys_report [simp]: "fsys (report om l m w) = fsys w"
  by (simp add: report_def)

lemma CreateDirectory_dry:
  "DryRun fsOps \<Longrightarrow>
     CreateDirectory os fsOps path perm w = (Inr (), emit LInfo (WouldCreateDirectory path perm) w)"
  by (simp add: CreateDirectory_def)

lemma CreateFile_dry:
  "DryRun fsOps \<Longrightarrow>
     CreateFile os e fsOps path content perm w =
       (Inr (), emit LInfo (WouldCreateFile path (length content)) w)"
  by (simp add: CreateFile_def)

lemma CreateSymlink_dry:
  "DryRun fsOps \<Longrightarrow>
     CreateSymlink os fsOps target linkPath w =
       (Inr (), emit LInfo (WouldCreateSymlink linkPath target) w)"
  by (simp add: CreateSymlink_def)

lemma BackupFile_dry:
  "DryRun fsOps \<Longrightarrow>
     BackupFile os e fsOps path w = (Inr (), emit LInfo (WouldBackupFile path) w)"
  by (simp add: BackupFile_def)

lemma touchLoop_dry:
  "DryRun fsOps \<Longrightarrow> fsys (touchLoop os e fsOps om targetPath files w) = fsys w"
  by (induction files arbitrary: w) (simp_all add: CreateFile_dry Let_def)

lemma createDirectoryStructure_dry:
  assumes "DryRun fsOps"
  shows "fst (createDirectoryStructure os e targetPath mc fsOps om w) = Inr () \<and>
         fsys (snd (createDirectoryStructure os e targetPath mc fsOps om w)) = fsys w"
  using assms
  by (simp add: createDirectoryStructure_def Let_def CreateSymlink_dry CreateDirectory_dry
      touchLoop_dry)

lemma executeMkcd_validation_gate:
  assumes "determineTargetPath e dirName mc cfg = Inr targetPath"
    and "ValidatePath e pv targetPath = Inl verr"
    and "\<not> force fl"
  shows "executeMkcd os e co fl dirName cfg mc om fsOps pv w =
           (Inl (PathValidationFailed verr), w)"
  using assms by (simp add: executeMkcd_def)

text \<open>
  C7, as the code has it. Under dry-run each mutating step of the file-system layer
  (create directory, create file, create symlink, backup) returns at its entry with
  a report of what it would do and with success, and the file system is as before;
  so is it after the whole directory step of the orchestrator. The step looks at
  nothing before it returns: the report and the result are the same whatever the
  file system holds at the target. The validation of the target path, which comes
  before the steps, is performed in a dry run as in a real one.
\<close>

theorem dry_run_short_circuits:
  "(DryRun fsOps \<longrightarrow>
     CreateDirectory os fsOps path perm w =
       (Inr (), emit LInfo (WouldCreateDirectory path perm) w) \<and>
     CreateFile os e fsOps path content perm w =
       (Inr (), emit LInfo (WouldCreateFile path (length content)) w) \<and>
     CreateSymlink os fsOps target path w =
       (Inr (), emit LInfo (WouldCreateSymlink path target) w) \<and>
     BackupFile os e fsOps path w = (Inr (), emit LInfo (WouldBackupFile path) w) \<and>
     fsys (snd (CreateDirectory os fsOps path perm w)) = fsys w \<and>
     fsys (snd (CreateFile os e fsOps path content perm w)) = fsys w \<and>
     fst (createDirectoryStructure os e path mc fsOps om w) = Inr () \<and>
     fsys (snd (createDirectoryStructure os e path mc fsOps om w)) = fsys w) \<and>
   (dryRun fl \<and> \<not> force fl \<and> determineTargetPath e dirName mc cfg = Inr path \<and>
    ValidatePath e pv path = Inl verr \<longrightarrow>
      executeMkcd os e co fl dirName cfg mc om fsOps pv w =
        (Inl (PathValidationFailed verr), w))"
  using createDirectoryStructure_dry[of fsOps os e path mc om w]
    executeMkcd_validation_gate[of e dirName mc cfg path pv verr fl os co om fsOps w]
  by (simp add: CreateDirectory_dry CreateFile_dry CreateSymlink_dry BackupFile_dry)

theorem dry_run_short_circuits_witness:
  "DryRun (NewFileSystemOperations True False) \<and>
   CreateDirectory (memOS [] sampleDecode) (NewFileSystemOperations True False)
     ''/home/user/work/fresh'' mode_0755 emptyWorld =
     (Inr (), emptyWorld\<lparr>trace := [(LInfo, WouldCreateDirectory ''/home/user/work/fresh'' 493)]\<rparr>) \<and>
   CreateFile (memOS [] sampleDecode) sampleEnv (NewFileSystemOperations True False)
     ''/home/user/work/fresh/main.py'' [] mode_0644 emptyWorld =
     (Inr (), emptyWorld\<lparr>trace := [(LInfo, WouldCreateFile ''/home/user/work/fresh/main.py'' 0)]\<rparr>) \<and>
   fsys (snd (createDirectoryStructure (memOS [] sampleDecode) sampleEnv ''/home/user/work/fresh''
     (mergeConfigWithFlags (noFlags\<lparr>touchFiles := [''main.py'']\<rparr>) emptyProfile)
     (NewFileSystemOperations True False) (NewOutputManager True True True False False False)
     emptyWorld)) = Map.empty \<and>
   fst (executeMkcd (memOS [] sampleDecode) sampleEnv (sampleCollaborators [])
     (noFlags\<lparr>dryRun := True\<rparr>) ''../../../etc/cron.d'' (DefaultConfig sampleEnv)
     (mergeConfigWithFlags (noFlags\<lparr>dryRun := True\<rparr>) emptyProfile)
     (NewOutputManager True True True False False False) (NewFileSystemOperations True False)
     (NewPathValidator [''/'', ''/etc''] 10) emptyWorld) =
     Inl (PathValidationFailed (UnderForbidden ''/etc'' ''/etc/cron.d''))"
proof -
  let ?fl = "noFlags\<lparr>dryRun := True\<rparr>"
  let ?mc = "mergeConfigWithFlags ?fl emptyProfile"
  let ?pv = "NewPathValidator [''/'', ''/etc''] 10"
  have dry: "DryRun (NewFileSystemOperations True False)"
    by (simp add: NewFileSystemOperations_def)
  have fl: "dryRun ?fl \<and> \<not> force ?fl"
    by (simp add: noFlags_def)
  have tp: "determineTargetPath sampleEnv ''../../../etc/cron.d'' ?mc (DefaultConfig sampleEnv) =
      Inr ''/etc/cron.d''"
    by code_simp
  have val: "ValidatePath sampleEnv ?pv ''/etc/cron.d'' =
      Inl (UnderForbidden ''/etc'' ''/etc/cron.d'')"
    by code_simp
  have steps: "CreateDirectory (memOS [] sampleDecode) (NewFileSystemOperations True False)
     ''/home/user/work/fresh'' mode_0755 emptyWorld =
     (Inr (), emptyWorld\<lparr>trace := [(LInfo, WouldCreateDirectory ''/home/user/work/fresh'' 493)]\<rparr>) \<and>
   fsys (snd (createDirectoryStructure (memOS [] sampleDecode) sampleEnv ''/home/user/work/fresh''
     (mergeConfigWithFlags (noFlags\<lparr>touchFiles := [''main.py'']\<rparr>) emptyProfile)
     (NewFileSystemOperations True False) (NewOutputManager True True True False False False)
     emptyWorld)) = Map.empty"
    using dry
      dry_run_short_circuits[where fsOps = "NewFileSystemOperations True False"
        and os = "memOS [] sampleDecode" and path = "''/home/user/work/fresh''"
        and perm = mode_0755 and w = emptyWorld and e = sampleEnv
        and mc = "mergeConfigWithFlags (noFlags\<lparr>touchFiles := [''main.py'']\<rparr>) emptyProfile"
        and om = "NewOutputManager True True True False False False"]
    by (simp add: emit_def emptyWorld_def mode_0755_def)
  have touch: "CreateFile (memOS [] sampleDecode) sampleEnv (NewFileSystemOperations True False)
     ''/home/user/work/fresh/main.py'' [] mode_0644 emptyWorld =
     (Inr (), emptyWorld\<lparr>trace := [(LInfo, WouldCreateFile ''/home/user/work/fresh/main.py'' 0)]\<rparr>)"
    using dry
      dry_run_short_circuits[where fsOps = "NewFileSystemOperations True False"
        and os = "memOS [] sampleDecode" and path = "''/home/user/work/fresh/main.py''"
        and perm = mode_0644 and w = emptyWorld and e = sampleEnv and content = "[]"]
    by (simp add: emit_def emptyWorld_def)
  have gate: "fst (executeMkcd (memOS [] sampleDecode) sampleEnv (sampleCollaborators [])
     ?fl ''../../../etc/cron.d'' (DefaultConfig sampleEnv) ?mc
     (NewOutputManager True True True False False False) (NewFileSystemOperations True False)
     ?pv emptyWorld) = Inl (PathValidationFailed (UnderForbidden ''/etc'' ''/etc/cron.d''))"
    using fl tp val
      dry_run_short_circuits[where fl = ?fl and e = sampleEnv
        and dirName = "''../../../etc/cron.d''" and mc = ?mc
        and cfg = "DefaultConfig sampleEnv" and path = "''/etc/cron.d''" and pv = ?pv
        and verr = "UnderForbidden ''/etc'' ''/etc/cron.d''"
        and os = "memOS [] sampleDecode" and co = "sampleCollaborators []"
        and om = "NewOutputManager True True True False False False"
        and fsOps = "NewFileSystemOperations True False" and w = emptyWorld]
    by simp
  show ?thesis
    using dry steps touch gate by blast
qed

text \<open>
  The claim C7 as the specification words it fails: where the target is a
  directory that exists, the real run reports that it already exists and the
  dry run reports that it would create it; where the target is a file, the real
  run fails because the path is not a directory and the dry run reports success.
\<close>

theorem dry_run_preconditions_counterexample:
  "os_Stat (memOS [] sampleDecode) (fsys populatedWorld) ''/home/user/work/proj'' = StatOk True \<and>
   CreateDirectory (memOS [] sampleDecode) (NewFileSystemOperations False False)
     ''/home/user/work/proj'' mode_0755 populatedWorld =
     (Inr (), populatedWorld\<lparr>trace := [(LDebug, DirectoryAlreadyExists ''/home/user/work/proj'')]\<rparr>) \<and>
   CreateDirectory (memOS [] sampleDecode) (NewFileSystemOperations True False)
     ''/home/user/work/proj'' mode_0755 populatedWorld =
     (Inr (), populatedWorld\<lparr>trace := [(LInfo, WouldCreateDirectory ''/home/user/work/proj'' 493)]\<rparr>) \<and>
   CreateDirectory (memOS [] sampleDecode) (NewFileSystemOperations False False)
     ''/home/user/work/notes'' mode_0755 populatedWorld =
     (Inl (PathExistsNotDirectory ''/home/user/work/notes''), populatedWorld) \<and>
   CreateDirectory (memOS [] sampleDecode) (NewFileSystemOperations True False)
     ''/home/user/work/notes'' mode_0755 populatedWorld =
     (Inr (), populatedWorld\<lparr>trace := [(LInfo, WouldCreateDirectory ''/home/user/work/notes'' 493)]\<rparr>)"
  by (simp add: CreateDirectory_def NewFileSystemOperations_def memOS_def memStat_def
      populatedWorld_def emit_def mode_0755_def)

lemma createDirectoryStructure_result:
  "Mkcd_Symlink mc = [] \<Longrightarrow>
     fst (createDirectoryStructure os e targetPath mc fsOps om w) =
     fst (CreateDirectory os fsOps targetPath mode_0755
            (if Mkcd_Mode mc \<noteq> [] then report om LDebug (CustomModeSpecified (Mkcd_Mode mc)) w
             else w))"
  by (simp add: createDirectoryStructure_def Let_def split: prod.splits sum.splits)

lemma touchLoop_failure_step:
  "CreateFile os e fsOps (Join [targetPath, fileName]) [] mode_0644 w = (Inl err, w1) \<Longrightarrow>
     touchLoop os e fsOps om targetPath (fileName # rest) w =
     touchLoop os e fsOps om targetPath rest
       (emit LWarning (FailedToCreateFile fileName err) w1)"
  by (simp add: report_def)

lemma touchLoop_trace_grows:
  "prefix (trace w) (trace (touchLoop os e fsOps om targetPath files w))"
proof (induction files arbitrary: w)
  case Nil
  then show ?case by simp
next
  case (Cons f files)
  obtain r w1 where cf: "CreateFile os e fsOps (Join [targetPath, f]) [] mode_0644 w = (r, w1)"
    by (cases "CreateFile os e fsOps (Join [targetPath, f]) [] mode_0644 w")
  have "prefix (trace w) (trace w1)"
    using cf
    by (auto simp: CreateFile_def BackupFile_def emit_def Let_def
        split: if_splits prod.splits sum.splits stat_result.splits)
  moreover have "prefix (trace w1) (trace (emit l m w1))" for l m
    by (simp add: emit_def)
  ultimately show ?case
    using cf Cons.IH prefix_order.trans
    by (cases r) (simp_all add: report_def, blast+)
qed

lemma touch_failure_warns:
  assumes "CreateFile os e fsOps (Join [targetPath, fileName]) [] mode_0644 w = (Inl err, w1)"
  shows "(LWarning, FailedToCreateFile fileName err) \<in>
           set (trace (touchLoop os e fsOps om targetPath (fileName # rest) w))"
proof -
  let ?w2 = "emit LWarning (FailedToCreateFile fileName err) w1"
  have "touchLoop os e fsOps om targetPath (fileName # rest) w =
        touchLoop os e fsOps om targetPath rest ?w2"
    using assms by (rule touchLoop_failure_step)
  moreover have "prefix (trace ?w2) (trace (touchLoop os e fsOps om targetPath rest ?w2))"
    by (rule touchLoop_trace_grows)
  moreover have "(LWarning, FailedToCreateFile fileName err) \<in> set (trace ?w2)"
    by (simp add: emit_def)
  ultimately show ?thesis
    using set_mono_prefix by fastforce
qed

lemma buildMkcd_hard:
  assumes "createDirectoryStructure os e targetPath mc fsOps om w = (Inr (), w2)"
    and "generateProjectFiles co fl targetPath mc cfg fsOps w2 = (Inl gerr, w3)"
  shows "buildMkcd os e co fl targetPath cfg mc om fsOps w =
           (Inl (FailedGenerateProjectFiles gerr), w3)"
  using assms by (simp add: buildMkcd_def)

lemma generateProjectFiles_readme:
  assumes "Mkcd_Readme mc"
    and "GenerateReadme co fsOps (dryRun fl) (verbose fl)
           \<lparr>ProjectPath = targetPath, Author = Git_UserName (Git cfg),
            Email = Git_UserEmail (Git cfg)\<rparr> w = (Inl msg, w')"
  shows "generateProjectFiles co fl targetPath mc cfg fsOps w = (Inl (FailedGenerateReadme msg), w')"
  using assms by (simp add: generateProjectFiles_def Let_def)

lemma generateProjectFiles_gitignore:
  assumes "(if Mkcd_Readme mc
            then GenerateReadme co fsOps (dryRun fl) (verbose fl)
                   \<lparr>ProjectPath = targetPath, Author = Git_UserName (Git cfg),
                    Email = Git_UserEmail (Git cfg)\<rparr> w
            else (Inr (), w)) = (Inr (), w1)"
    and "Mkcd_Gitignore mc \<noteq> []"
    and "GenerateGitignore co fsOps (dryRun fl) (verbose fl)
           \<lparr>ProjectPath = targetPath, Author = Git_UserName (Git cfg),
            Email = Git_UserEmail (Git cfg)\<rparr> (Mkcd_Gitignore mc) w1 = (Inl msg, w')"
  shows "generateProjectFiles co fl targetPath mc cfg fsOps w =
           (Inl (FailedGenerateGitignore msg), w')"
  using assms unfolding generateProjectFiles_def Let_def by (simp split: if_splits)

lemma generateProjectFiles_license:
  assumes "(if Mkcd_Readme mc
            then GenerateReadme co fsOps (dryRun fl) (verbose fl)
                   \<lparr>ProjectPath = targetPath, Author = Git_UserName (Git cfg),
                    Email = Git_UserEmail (Git cfg)\<rparr> w
            else (Inr (), w)) = (Inr (), w1)"
    and "(if Mkcd_Gitignore mc \<noteq> []
          then GenerateGitignore co fsOps (dryRun fl) (verbose fl)
                 \<lparr>ProjectPath = targetPath, Author = Git_UserName (Git cfg),
                  Email = Git_UserEmail (Git cfg)\<rparr> (Mkcd_Gitignore mc) w1
          else (Inr (), w1)) = (Inr (), w2)"
    and "Mkcd_License mc \<noteq> []"
    and "GenerateLicense co fsOps (dryRun fl) (verbose fl)
           \<lparr>ProjectPath = targetPath, Author = Git_UserName (Git cfg),
            Email = Git_UserEmail (Git cfg)\<rparr> (Mkcd_License mc) w2 = (Inl msg, w')"
  shows "generateProjectFiles co fl targetPath mc cfg fsOps w =
           (Inl (FailedGenerateLicense msg), w')"
  using assms unfolding generateProjectFiles_def Let_def by (simp split: if_splits)

lemma buildMkcd_touch_only:
  assumes "Mkcd_Symlink mc = []" "\<not> Mkcd_Git mc" "\<not> Mkcd_Readme mc"
    and "Mkcd_Gitignore mc = []" "Mkcd_License mc = []"
    and "fst (CreateDirectory os fsOps targetPath mode_0755
            (if Mkcd_Mode mc \<noteq> [] then report om LDebug (CustomModeSpecified (Mkcd_Mode mc)) w
             else w)) = Inr ()"
  shows "fst (buildMkcd os e co fl targetPath cfg mc om fsOps w) = Inr ()"
proof -
  have "fst (createDirectoryStructure os e targetPath mc fsOps om w) = Inr ()"
    using assms(1,6) by (simp add: createDirectoryStructure_result)
  then obtain w1 where cds: "createDirectoryStructure os e targetPath mc fsOps om w = (Inr (), w1)"
    by (cases "createDirectoryStructure os e targetPath mc fsOps om w") auto
  have gen: "generateProjectFiles co fl targetPath mc cfg fsOps w1 = (Inr (), w1)"
    using assms(3,4,5) by (simp add: generateProjectFiles_def Let_def)
  have git: "gitMkcd co fl targetPath cfg mc om w1 = (Inr (), w1)"
    using assms(2) by (simp add: gitMkcd_def)
  show ?thesis
    by (simp add: buildMkcd_def cds gen git finishMkcd_def Let_def)
qed

lemma prints_Warning: "prints om LWarning = (\<not> Quiet om)"
  by (simp add: prints_def)

lemma executeMkcd_reaches_build:
  assumes "determineTargetPath e dirName mc cfg = Inr targetPath"
    and "ValidatePath e pv targetPath = Inr ()"
    and "\<not> interactive fl"
  shows "executeMkcd os e co fl dirName cfg mc om fsOps pv w =
           buildMkcd os e co fl targetPath cfg mc om fsOps w"
  using assms by (simp add: executeMkcd_def)

text \<open>
  C8. A touch file that cannot be created is a soft failure: the loop hands a
  warning to the output manager and goes on with the files that remain, the result
  of the directory step is that of creating the directory alone, and an invocation
  that asks for a directory and touch files only succeeds whenever the directory
  can be created. A document that cannot be generated (readme, ignore file or
  license) is a hard failure: the generation step returns its error, the run stops
  there with that error, and \<^verbatim>\<open>executeMkcd\<close> returns it. The warning is the call
  of the output manager's \<^verbatim>\<open>Warning\<close> method, which prints it unless the manager
  is quiet (\<open>prints_Warning\<close>).
\<close>

theorem touch_soft_generation_hard:
  "(CreateFile os e fsOps (Join [targetPath, fileName]) [] mode_0644 w = (Inl err, wt) \<longrightarrow>
      touchLoop os e fsOps om targetPath (fileName # rest) w =
        touchLoop os e fsOps om targetPath rest
          (emit LWarning (FailedToCreateFile fileName err) wt) \<and>
      (LWarning, FailedToCreateFile fileName err) \<in>
        set (trace (touchLoop os e fsOps om targetPath (fileName # rest) w))) \<and>
   (Mkcd_Symlink mc = [] \<longrightarrow>
      fst (createDirectoryStructure os e targetPath mc fsOps om w) =
      fst (CreateDirectory os fsOps targetPath mode_0755
             (if Mkcd_Mode mc \<noteq> []
              then report om LDebug (CustomModeSpecified (Mkcd_Mode mc)) w else w))) \<and>
   (Mkcd_Symlink mc = [] \<and> \<not> Mkcd_Git mc \<and> \<not> Mkcd_Readme mc \<and>
    Mkcd_Gitignore mc = [] \<and> Mkcd_License mc = [] \<and>
    fst (CreateDirectory os fsOps targetPath mode_0755
           (if Mkcd_Mode mc \<noteq> []
            then report om LDebug (CustomModeSpecified (Mkcd_Mode mc)) w else w)) = Inr () \<longrightarrow>
      fst (buildMkcd os e co fl targetPath cfg mc om fsOps w) = Inr ()) \<and>
   (Mkcd_Readme mc \<and>
    GenerateReadme co fsOps (dryRun fl) (verbose fl)
      \<lparr>ProjectPath = targetPath, Author = Git_UserName (Git cfg),
       Email = Git_UserEmail (Git cfg)\<rparr> w = (Inl msg, w') \<longrightarrow>
      generateProjectFiles co fl targetPath mc cfg fsOps w =
        (Inl (FailedGenerateReadme msg), w')) \<and>
   ((if Mkcd_Readme mc
     then GenerateReadme co fsOps (dryRun fl) (verbose fl)
            \<lparr>ProjectPath = targetPath, Author = Git_UserName (Git cfg),
             Email = Git_UserEmail (Git cfg)\<rparr> w
     else (Inr (), w)) = (Inr (), wr) \<and>
    Mkcd_Gitignore mc \<noteq> [] \<and>
    GenerateGitignore co fsOps (dryRun fl) (verbose fl)
      \<lparr>ProjectPath = targetPath, Author = Git_UserName (Git cfg),
       Email = Git_UserEmail (Git cfg)\<rparr> (Mkcd_Gitignore mc) wr = (Inl msg, w') \<longrightarrow>
      generateProjectFiles co fl targetPath mc cfg fsOps w =
        (Inl (FailedGenerateGitignore msg), w')) \<and>
   ((if Mkcd_Readme mc
     then GenerateReadme co fsOps (dryRun fl) (verbose fl)
            \<lparr>ProjectPath = targetPath, Author = Git_UserName (Git cfg),
             Email = Git_UserEmail (Git cfg)\<rparr> w
     else (Inr (), w)) = (Inr (), wr) \<and>
    (if Mkcd_Gitignore mc \<noteq> []
     then GenerateGitignore co fsOps (dryRun fl) (verbose fl)
            \<lparr>ProjectPath = targetPath, Author = Git_UserName (Git cfg),
             Email = Git_UserEmail (Git cfg)\<rparr> (Mkcd_Gitignore mc) wr
     else (Inr (), wr)) = (Inr (), wi) \<and>
    Mkcd_License mc \<noteq> [] \<and>
    GenerateLicense co fsOps (dryRun fl) (verbose fl)
      \<lparr>ProjectPath = targetPath, Author = Git_UserName (Git cfg),
       Email = Git_UserEmail (Git cfg)\<rparr> (Mkcd_License mc) wi = (Inl msg, w') \<longrightarrow>
      generateProjectFiles co fl targetPath mc cfg fsOps w =
        (Inl (FailedGenerateLicense msg), w')) \<and>
   (createDirectoryStructure os e targetPath mc fsOps om w = (Inr (), wd) \<and>
    generateProjectFiles co fl targetPath mc cfg fsOps wd = (Inl gerr, wg) \<longrightarrow>
      buildMkcd os e co fl targetPath cfg mc om fsOps w =
        (Inl (FailedGenerateProjectFiles gerr), wg)) \<and>
   (determineTargetPath e dirName mc cfg = Inr targetPath \<and>
    ValidatePath e pv targetPath = Inr () \<and> \<not> interactive fl \<longrightarrow>
      executeMkcd os e co fl dirName cfg mc om fsOps pv w =
        buildMkcd os e co fl targetPath cfg mc om fsOps w)"
  using touchLoop_failure_step[of os e fsOps targetPath fileName w err wt om rest]
    touch_failure_warns[of os e fsOps targetPath fileName w err wt om rest]
    createDirectoryStructure_result[of mc os e targetPath fsOps om w]
    buildMkcd_touch_only[of mc os fsOps targetPath om w e co fl cfg]
    generateProjectFiles_readme[of mc co fsOps fl targetPath cfg w msg w']
    generateProjectFiles_gitignore[of mc co fsOps fl targetPath cfg w wr msg w']
    generateProjectFiles_license[of mc co fsOps fl targetPath cfg w wr wi msg w']
    buildMkcd_hard[of os e targetPath mc fsOps om w wd co fl cfg gerr wg]
    executeMkcd_reaches_build[of e dirName mc cfg targetPath pv fl os co om fsOps w]
  by blast

theorem touch_soft_generation_hard_witness:
  "(LWarning,
    FailedToCreateFile ''locked.txt''
      (FailedCreateFile ''/home/user/work/fresh/locked.txt'' ''permission denied'')) \<in>
     set (trace (touchLoop lockedOS sampleEnv (NewFileSystemOperations False False)
       (NewOutputManager True True True False False False) ''/home/user/work/fresh''
       [''locked.txt'', ''main.py''] emptyWorld)) \<and>
   fst (buildMkcd lockedOS sampleEnv (sampleCollaborators []) noFlags ''/home/user/work/fresh''
     (DefaultConfig sampleEnv)
     (mergeConfigWithFlags (noFlags\<lparr>touchFiles := [''locked.txt'', ''main.py'']\<rparr>) emptyProfile)
     (NewOutputManager True True True False False False)
     (NewFileSystemOperations False False) emptyWorld) = Inr () \<and>
   fst (buildMkcd lockedOS sampleEnv (sampleCollaborators [''readme'']) touchFlags ''/home/user/work/fresh''
     (DefaultConfig sampleEnv) (mergeConfigWithFlags touchFlags emptyProfile)
     (NewOutputManager True True True False False False)
     (NewFileSystemOperations False False) emptyWorld) =
     Inl (FailedGenerateProjectFiles (FailedGenerateReadme ''cannot write README.md'')) \<and>
   fst (generateProjectFiles (sampleCollaborators [''gitignore'']) noFlags ''/home/user/work/fresh''
     (mergeConfigWithFlags (noFlags\<lparr>gitignore := ''go'', license := ''mit''\<rparr>) emptyProfile)
     (DefaultConfig sampleEnv) (NewFileSystemOperations False False) emptyWorld) =
     Inl (FailedGenerateGitignore ''cannot write .gitignore'') \<and>
   fst (generateProjectFiles (sampleCollaborators [''license'']) noFlags ''/home/user/work/fresh''
     (mergeConfigWithFlags (noFlags\<lparr>gitignore := ''go'', license := ''mit''\<rparr>) emptyProfile)
     (DefaultConfig sampleEnv) (NewFileSystemOperations False False) emptyWorld) =
     Inl (FailedGenerateLicense ''unknown license'') \<and>
   fst (executeMkcd lockedOS sampleEnv (sampleCollaborators [''readme'']) touchFlags ''fresh''
     (DefaultConfig sampleEnv) (mergeConfigWithFlags touchFlags emptyProfile)
     (NewOutputManager True True True False False False)
     (NewFileSystemOperations False False) (NewPathValidator [''/'', ''/etc''] 10) emptyWorld) =
     Inl (FailedGenerateProjectFiles (FailedGenerateReadme ''cannot write README.md'')) \<and>
   fst (runMkcd lockedOS sampleEnv (sampleCollaborators []) touchFlags ''fresh'' emptyWorld) =
     Inr () \<and>
   trace (snd (runMkcd lockedOS sampleEnv (sampleCollaborators []) touchFlags ''fresh''
     emptyWorld)) =
     [(LDebug, ConfigNotFoundUsingDefaults ''/home/user/.config/mkcd/mkcd.conf''),
      (LSuccess, CreatedDirectory ''/home/user/work/fresh''),
      (LWarning,
       FailedToCreateFile ''locked.txt''
         (FailedCreateFile ''/home/user/work/fresh/locked.txt'' ''permission denied'')),
      (LSuccess, CreatedFile ''/home/user/work/fresh/main.py''),
      (LSuccess, DirectoryCreated ''/home/user/work/fresh''),
      (LInfo, ToChangeDirectoryRun ''/home/user/work/fresh''),
      (LStdout, CdCommand ''/home/user/work/fresh'')] \<and>
   fst (runMkcd lockedOS sampleEnv (sampleCollaborators [''readme'']) touchFlags ''fresh'' emptyWorld) =
     Inl (FailedGenerateProjectFiles (FailedGenerateReadme ''cannot write README.md'')) \<and>
   trace (snd (runMkcd lockedOS sampleEnv (sampleCollaborators [''readme'']) touchFlags ''fresh''
     emptyWorld)) =
     [(LDebug, ConfigNotFoundUsingDefaults ''/home/user/.config/mkcd/mkcd.conf''),
      (LSuccess, CreatedDirectory ''/home/user/work/fresh''),
      (LWarning,
       FailedToCreateFile ''locked.txt''
         (FailedCreateFile ''/home/user/work/fresh/locked.txt'' ''permission denied'')),
      (LSuccess, CreatedFile ''/home/user/work/fresh/main.py'')]"
proof -
  let ?ops = "NewFileSystemOperations False False"
  let ?om = "NewOutputManager True True True False False False"
  let ?tp = "''/home/user/work/fresh''"
  let ?err = "FailedCreateFile ''/home/user/work/fresh/locked.txt'' ''permission denied''"
  let ?mcTouch = "mergeConfigWithFlags (noFlags\<lparr>touchFiles := [''locked.txt'', ''main.py'']\<rparr>)
                    emptyProfile"
  let ?mc = "mergeConfigWithFlags touchFlags emptyProfile"
  have "fst (CreateFile lockedOS sampleEnv ?ops (Join [?tp, ''locked.txt'']) [] mode_0644
          emptyWorld) = Inl ?err"
    by code_simp
  then obtain wt where locked: "CreateFile lockedOS sampleEnv ?ops (Join [?tp, ''locked.txt''])
      [] mode_0644 emptyWorld = (Inl ?err, wt)"
    by (cases "CreateFile lockedOS sampleEnv ?ops (Join [?tp, ''locked.txt'']) [] mode_0644
          emptyWorld") auto
  have warn: "(LWarning, FailedToCreateFile ''locked.txt'' ?err) \<in>
      set (trace (touchLoop lockedOS sampleEnv ?ops ?om ?tp [''locked.txt'', ''main.py'']
        emptyWorld))"
    using locked
      touch_soft_generation_hard[where os = lockedOS and e = sampleEnv and fsOps = ?ops
        and targetPath = ?tp and fileName = "''locked.txt''" and w = emptyWorld
        and err = ?err and wt = wt and om = ?om and rest = "[''main.py'']"]
    by blast
  have only: "Mkcd_Symlink ?mcTouch = [] \<and> \<not> Mkcd_Git ?mcTouch \<and> \<not> Mkcd_Readme ?mcTouch \<and>
      Mkcd_Gitignore ?mcTouch = [] \<and> Mkcd_License ?mcTouch = [] \<and> Mkcd_Mode ?mcTouch = []"
    by (simp add: mergeConfigWithFlags_def noFlags_def emptyProfile_def Let_def)
  have dir: "fst (CreateDirectory lockedOS ?ops ?tp mode_0755 emptyWorld) = Inr ()"
    by code_simp
  have soft: "fst (buildMkcd lockedOS sampleEnv (sampleCollaborators []) noFlags ?tp
      (DefaultConfig sampleEnv) ?mcTouch ?om ?ops emptyWorld) = Inr ()"
    using only dir
      touch_soft_generation_hard[where os = lockedOS and e = sampleEnv and fsOps = ?ops
        and targetPath = ?tp and w = emptyWorld and om = ?om and mc = ?mcTouch
        and co = "sampleCollaborators []" and fl = noFlags
        and cfg = "DefaultConfig sampleEnv"]
    by simp
  have "fst (createDirectoryStructure lockedOS sampleEnv ?tp ?mc ?ops ?om emptyWorld) = Inr ()"
    by code_simp
  then obtain wd where cds: "createDirectoryStructure lockedOS sampleEnv ?tp ?mc ?ops ?om
      emptyWorld = (Inr (), wd)"
    by (cases "createDirectoryStructure lockedOS sampleEnv ?tp ?mc ?ops ?om emptyWorld") auto
  have rd: "Mkcd_Readme ?mc"
    by (simp add: mergeConfigWithFlags_def touchFlags_def noFlags_def Let_def)
  have gr: "GenerateReadme (sampleCollaborators [''readme'']) ops d v ctx wd =
      (Inl ''cannot write README.md'', wd)" for ops d v ctx
    by (simp add: sampleCollaborators_def)
  have gen: "generateProjectFiles (sampleCollaborators [''readme'']) touchFlags ?tp ?mc
      (DefaultConfig sampleEnv) ?ops wd =
      (Inl (FailedGenerateReadme ''cannot write README.md''), wd)"
    using rd gr
      touch_soft_generation_hard[where co = "sampleCollaborators [''readme'']" and fl = touchFlags
        and targetPath = ?tp and mc = ?mc and cfg = "DefaultConfig sampleEnv" and fsOps = ?ops
        and w = wd and msg = "''cannot write README.md''" and w' = wd]
    by blast
  have hard: "fst (buildMkcd lockedOS sampleEnv (sampleCollaborators [''readme'']) touchFlags ?tp
      (DefaultConfig sampleEnv) ?mc ?om ?ops emptyWorld) =
      Inl (FailedGenerateProjectFiles (FailedGenerateReadme ''cannot write README.md''))"
    using cds gen
      touch_soft_generation_hard[where os = lockedOS and e = sampleEnv and fsOps = ?ops
        and targetPath = ?tp and w = emptyWorld and om = ?om and mc = ?mc
        and co = "sampleCollaborators [''readme'']" and fl = touchFlags
        and cfg = "DefaultConfig sampleEnv" and wd = wd
        and gerr = "FailedGenerateReadme ''cannot write README.md''" and wg = wd]
    by simp
  let ?mcDocs = "mergeConfigWithFlags (noFlags\<lparr>gitignore := ''go'', license := ''mit''\<rparr>)
                   emptyProfile"
  have docs: "\<not> Mkcd_Readme ?mcDocs \<and> Mkcd_Gitignore ?mcDocs \<noteq> [] \<and> Mkcd_License ?mcDocs \<noteq> []"
    by (simp add: mergeConfigWithFlags_def noFlags_def emptyProfile_def Let_def)
  have gi: "GenerateGitignore (sampleCollaborators [''gitignore'']) ops d v ctx flavor emptyWorld =
      (Inl ''cannot write .gitignore'', emptyWorld)" for ops d v ctx flavor
    by (simp add: sampleCollaborators_def)
  have gi_ok: "GenerateGitignore (sampleCollaborators [''license'']) ops d v ctx flavor emptyWorld =
      (Inr (), emptyWorld)" for ops d v ctx flavor
    by (simp add: sampleCollaborators_def)
  have li: "GenerateLicense (sampleCollaborators [''license'']) ops d v ctx flavor emptyWorld =
      (Inl ''unknown license'', emptyWorld)" for ops d v ctx flavor
    by (simp add: sampleCollaborators_def)
  have ignore: "fst (generateProjectFiles (sampleCollaborators [''gitignore'']) noFlags ?tp ?mcDocs
      (DefaultConfig sampleEnv) ?ops emptyWorld) =
      Inl (FailedGenerateGitignore ''cannot write .gitignore'')"
    using docs gi
      touch_soft_generation_hard[where co = "sampleCollaborators [''gitignore'']"
        and fl = noFlags and targetPath = ?tp and mc = ?mcDocs
        and cfg = "DefaultConfig sampleEnv" and fsOps = ?ops and w = emptyWorld
        and wr = emptyWorld and msg = "''cannot write .gitignore''" and w' = emptyWorld]
    by simp
  have licence: "fst (generateProjectFiles (sampleCollaborators [''license'']) noFlags ?tp ?mcDocs
      (DefaultConfig sampleEnv) ?ops emptyWorld) = Inl (FailedGenerateLicense ''unknown license'')"
    using docs gi_ok li
      touch_soft_generation_hard[where co = "sampleCollaborators [''license'']"
        and fl = noFlags and targetPath = ?tp and mc = ?mcDocs
        and cfg = "DefaultConfig sampleEnv" and fsOps = ?ops and w = emptyWorld
        and wr = emptyWorld and wi = emptyWorld and msg = "''unknown license''"
        and w' = emptyWorld]
    by simp
  have tp: "determineTargetPath sampleEnv ''fresh'' ?mc (DefaultConfig sampleEnv) = Inr ?tp"
    by code_simp
  have valid: "ValidatePath sampleEnv (NewPathValidator [''/'', ''/etc''] 10) ?tp = Inr ()"
    by code_simp
  have batch: "\<not> interactive touchFlags"
    by (simp add: touchFlags_def noFlags_def)
  have exec: "fst (executeMkcd lockedOS sampleEnv (sampleCollaborators [''readme'']) touchFlags
      ''fresh'' (DefaultConfig sampleEnv) ?mc ?om ?ops (NewPathValidator [''/'', ''/etc''] 10)
      emptyWorld) =
      Inl (FailedGenerateProjectFiles (FailedGenerateReadme ''cannot write README.md''))"
    using tp valid batch hard
      touch_soft_generation_hard[where os = lockedOS and e = sampleEnv and fsOps = ?ops
        and targetPath = ?tp and w = emptyWorld and om = ?om and mc = ?mc
        and co = "sampleCollaborators [''readme'']" and fl = touchFlags
        and cfg = "DefaultConfig sampleEnv" and dirName = "''fresh''"
        and pv = "NewPathValidator [''/'', ''/etc''] 10"]
    by simp
  have run1: "fst (runMkcd lockedOS sampleEnv (sampleCollaborators []) touchFlags ''fresh''
      emptyWorld) = Inr ()"
    by code_simp
  have run2: "trace (snd (runMkcd lockedOS sampleEnv (sampleCollaborators []) touchFlags
      ''fresh'' emptyWorld)) =
     [(LDebug, ConfigNotFoundUsingDefaults ''/home/user/.config/mkcd/mkcd.conf''),
      (LSuccess, CreatedDirectory ''/home/user/work/fresh''),
      (LWarning, FailedToCreateFile ''locked.txt'' ?err),
      (LSuccess, CreatedFile ''/home/user/work/fresh/main.py''),
      (LSuccess, DirectoryCreated ''/home/user/work/fresh''),
      (LInfo, ToChangeDirectoryRun ''/home/user/work/fresh''),
      (LStdout, CdCommand ''/home/user/work/fresh'')]"
    by code_simp
  have run3: "fst (runMkcd lockedOS sampleEnv (sampleCollaborators [''readme'']) touchFlags ''fresh''
      emptyWorld) =
      Inl (FailedGenerateProjectFiles (FailedGenerateReadme ''cannot write README.md''))"
    by code_simp
  have run4: "trace (snd (runMkcd lockedOS sampleEnv (sampleCollaborators [''readme'']) touchFlags
      ''fresh'' emptyWorld)) =
     [(LDebug, ConfigNotFoundUsingDefaults ''/home/user/.config/mkcd/mkcd.conf''),
      (LSuccess, CreatedDirectory ''/home/user/work/fresh''),
      (LWarning, FailedToCreateFile ''locked.txt'' ?err),
      (LSuccess, CreatedFile ''/home/user/work/fresh/main.py'')]"
    by code_simp
  show ?thesis
    using warn soft hard ignore licence exec run1 run2 run3 run4 by blast
qed

end
